theory Spec2Isabelle
  imports Main "HOL-Library.Sublist"
begin

section \<open>Repository model, errors and outcomes\<close>

text \<open>
  The normalized unit of work. The struct declaration is not among the sources; its
  four fields are the ones every adapter fills in
  (\<^verbatim>\<open>&Repository{CloneURL: ..., Name: ..., Namespace: ..., Private: ...}\<close>).
\<close>

record Repository =
  CloneURL :: string
  Name :: string
  Namespace :: string
  Private :: bool

text \<open>
  A Go \<^verbatim>\<open>error\<close> value: either the error a client call handed back, or a fresh
  error built by \<^verbatim>\<open>fmt.Errorf\<close> (only its message is kept, as \<^verbatim>\<open>%v\<close> does).
\<close>

datatype error = ClientError string | Errorf string

fun errorString :: "error \<Rightarrow> string" where
  "errorString (ClientError m) = m"
| "errorString (Errorf m) = m"

text \<open>
  Every way an adapter stops without a repository list:
  \<^item> \<open>ReturnErr e\<close>: it returns \<^verbatim>\<open>(nil, e)\<close> to its caller;
  \<^item> \<open>Panic\<close>: a run-time panic (nil pointer dereference, failed type assertion,
    index out of range);
  \<^item> \<open>LogFatal m\<close>: \<^verbatim>\<open>log.Fatalf\<close> printed \<open>m\<close> and the process exited;
  \<^item> \<open>NoReply\<close>: the provider never answered the last request, so the call does
    not return.
  \<open>Inr repositories\<close> is the return \<^verbatim>\<open>(repositories, nil)\<close>.
\<close>

datatype stop = ReturnErr error | Panic | LogFatal string | NoReply

type_synonym result = "stop + Repository list"

subsection \<open>Helpers used by the adapters\<close>

text \<open>
  Modelled from the spec: the body of \<^verbatim>\<open>contains\<close> is not among the sources (only
  its callers are). The spec says of the whitelist test: "comparison is exact string
  match".
\<close>

fun contains :: "string list \<Rightarrow> string \<Rightarrow> bool" where
  "contains [] e = False"
| "contains (a # s) e = (a = e \<or> contains s e)"

text \<open>
  Modelled from the spec: the body of \<^verbatim>\<open>getCloneURL\<close> is not among the sources (only
  its callers, which pass the HTTPS and the SSH address, and the package variable
  \<^verbatim>\<open>useHTTPSClone\<close> it reads, here the first argument). The spec (clone URL
  resolver): "If preferHTTPS is true and httpsURL is non-empty, return it; else if
  sshURL is non-empty, return it; else fall back to whichever of the two is non-empty".
\<close>

definition getCloneURL :: "bool \<Rightarrow> string \<Rightarrow> string \<Rightarrow> string" where
  "getCloneURL useHTTPSClone httpsURL sshURL =
     (if useHTTPSClone \<and> httpsURL \<noteq> [] then httpsURL
      else if sshURL \<noteq> [] then sshURL
      else httpsURL)"

text \<open>
  \<^verbatim>\<open>strings.Split(s, "/")\<close>: the adapters only ever split on the one-character
  separator \<^verbatim>\<open>"/"\<close>, so the separator is a character. The result of Go's
  \<^verbatim>\<open>Split\<close> has one more element than \<open>s\<close> has separators.
\<close>

fun strings_Split :: "string \<Rightarrow> char \<Rightarrow> string list" where
  "strings_Split [] sep = [[]]"
| "strings_Split (c # cs) sep =
     (if c = sep then [] # strings_Split cs sep
      else (case strings_Split cs sep of
              [] \<Rightarrow> [[c]]
            | w # ws \<Rightarrow> (c # w) # ws))"

text \<open>Indexing \<^verbatim>\<open>xs[0]\<close>: Go panics on an empty slice.\<close>

fun index0 :: "'a list \<Rightarrow> stop + 'a" where
  "index0 [] = Inl Panic"
| "index0 (x # xs) = Inr x"

section \<open>Paginated listing\<close>

text \<open>
  The provider is a script: the replies it gives to the successive listing calls, in
  order. A reply is the triple \<^verbatim>\<open>(items, resp, err)\<close> of the client call: \<open>Inl err\<close>
  when \<^verbatim>\<open>err != nil\<close>, otherwise the items of the page and the response, \<open>None\<close>
  for a nil response and \<open>Some n\<close> for a response with \<^verbatim>\<open>NextPage == n\<close>.
  A listing yields its result, the requests it sent (one per call, in order) and the
  replies it did not consume.
\<close>

type_synonym 'p reply = "error + ('p list \<times> int option)"

type_synonym ('p, 'q) listing = "result \<times> 'q list \<times> 'p reply list"

text \<open>
  The inner \<^verbatim>\<open>for _, repo := range repos\<close> of every adapter: each item is skipped
  (\<^verbatim>\<open>continue\<close>, \<open>Inr None\<close>), appended (\<open>Inr (Some r)\<close>) or panics.
\<close>

fun rangeAppend :: "('p \<Rightarrow> stop + Repository option) \<Rightarrow> 'p list \<Rightarrow> Repository list
    \<Rightarrow> stop + Repository list" where
  "rangeAppend item [] repositories = Inr repositories"
| "rangeAppend item (p # ps) repositories =
     (case item p of
        Inl s \<Rightarrow> Inl s
      | Inr None \<Rightarrow> rangeAppend item ps repositories
      | Inr (Some r) \<Rightarrow> rangeAppend item ps (repositories @ [r]))"

text \<open>
  The outer \<^verbatim>\<open>for { ... }\<close> of \<^verbatim>\<open>getGithubRepositories\<close>,
  \<^verbatim>\<open>getGithubStarredRepositories\<close>, \<^verbatim>\<open>getGitlabRepositories\<close> and
  \<^verbatim>\<open>paginateForgejoRepositories\<close>, which differ in the request built from the
  page cursor (\<open>req\<close>), in the per-item body (\<open>item\<close>) and in the exit test:
  \<^verbatim>\<open>
  for {
      repos, resp, err := <list call>(<page cursor>)
      if err != nil { return nil, err }
      for _, repo := range repos { ... }
      if resp.NextPage == 0 { break }      // GitHub, GitLab
      if resp == nil || resp.NextPage == 0 { break }      // Forgejo
      <page cursor> = resp.NextPage
  }
  return repositories, nil
  \<close>
  \<open>guardNil\<close> says whether the exit test checks \<^verbatim>\<open>resp == nil\<close> first; without
  the check, \<^verbatim>\<open>resp.NextPage\<close> on a nil response is a nil pointer dereference.
\<close>

fun listPages :: "bool \<Rightarrow> (int \<Rightarrow> 'q) \<Rightarrow> ('p \<Rightarrow> stop + Repository option)
    \<Rightarrow> 'p reply list \<Rightarrow> int \<Rightarrow> Repository list \<Rightarrow> 'q list \<Rightarrow> ('p, 'q) listing" where
  "listPages guardNil req item [] page repositories sent =
     (Inl NoReply, sent @ [req page], [])"
| "listPages guardNil req item (reply # rest) page repositories sent =
     (case reply of
        Inl err \<Rightarrow> (Inl (ReturnErr err), sent @ [req page], rest)
      | Inr (repos, resp) \<Rightarrow>
          (case rangeAppend item repos repositories of
             Inl s \<Rightarrow> (Inl s, sent @ [req page], rest)
           | Inr repositories' \<Rightarrow>
               (case resp of
                  None \<Rightarrow>
                    if guardNil then (Inr repositories', sent @ [req page], rest)
                    else (Inl Panic, sent @ [req page], rest)
                | Some NextPage \<Rightarrow>
                    if NextPage = 0 then (Inr repositories', sent @ [req page], rest)
                    else listPages guardNil req item rest NextPage repositories'
                           (sent @ [req page]))))"

section \<open>GitHub adapter\<close>

text \<open>
  The fields of \<^verbatim>\<open>github.Repository\<close> the adapter reads; all are pointers in
  go-github, so each may be nil.
\<close>

record github_Repository =
  gh_Fork :: "bool option"
  gh_FullName :: "string option"
  gh_CloneURL :: "string option"
  gh_SSHURL :: "string option"
  gh_Name :: "string option"
  gh_Private :: "bool option"

text \<open>\<^verbatim>\<open>github.StarredRepository\<close>: the starred relationship wraps a repository pointer.\<close>

record github_StarredRepository =
  star_Repository :: "github_Repository option"

datatype github_request =
  Repositories_List string int
| Activity_ListStarred int

record github_Client =
  Repositories_List_replies :: "github_Repository reply list"
  Activity_ListStarred_replies :: "github_StarredRepository reply list"

text \<open>The nil-guarded reads \<^verbatim>\<open>if repo.CloneURL != nil { httpsCloneURL = *repo.CloneURL }\<close>.\<close>

fun orEmpty :: "string option \<Rightarrow> string" where
  "orEmpty None = []"
| "orEmpty (Some s) = s"

text \<open>Body of the item loop of \<^verbatim>\<open>getGithubRepositories\<close> (lines 329 to 354).\<close>

definition githubItem :: "bool \<Rightarrow> string list \<Rightarrow> bool \<Rightarrow> github_Repository
    \<Rightarrow> stop + Repository option" where
  "githubItem useHTTPSClone githubNamespaceWhitelist ignoreFork repo =
     (case gh_Fork repo of
        None \<Rightarrow> Inl Panic
      | Some fork \<Rightarrow>
          if fork \<and> ignoreFork then Inr None
          else
            (case gh_FullName repo of
               None \<Rightarrow> Inl Panic
             | Some fullName \<Rightarrow>
                 (case index0 (strings_Split fullName CHR ''/'') of
                    Inl s \<Rightarrow> Inl s
                  | Inr namespace \<Rightarrow>
                      if length githubNamespaceWhitelist > 0
                         \<and> \<not> contains githubNamespaceWhitelist namespace
                      then Inr None
                      else
                        (case gh_Name repo of
                           None \<Rightarrow> Inl Panic
                         | Some name \<Rightarrow>
                             (case gh_Private repo of
                                None \<Rightarrow> Inl Panic
                              | Some private \<Rightarrow>
                                  Inr (Some \<lparr>CloneURL = getCloneURL useHTTPSClone
                                                  (orEmpty (gh_CloneURL repo))
                                                  (orEmpty (gh_SSHURL repo)),
                                              Name = name,
                                              Namespace = namespace,
                                              Private = private\<rparr>))))))"

text \<open>
  Body of the item loop of \<^verbatim>\<open>getGithubStarredRepositories\<close> (lines 372 to 393):
  the same reads through \<^verbatim>\<open>star.Repository\<close>, and no whitelist test.
\<close>

definition githubStarredItem :: "bool \<Rightarrow> bool \<Rightarrow> github_StarredRepository
    \<Rightarrow> stop + Repository option" where
  "githubStarredItem useHTTPSClone ignoreFork star =
     (case star_Repository star of
        None \<Rightarrow> Inl Panic
      | Some repo \<Rightarrow>
          (case gh_Fork repo of
             None \<Rightarrow> Inl Panic
           | Some fork \<Rightarrow>
               if fork \<and> ignoreFork then Inr None
               else
                 (case gh_FullName repo of
                    None \<Rightarrow> Inl Panic
                  | Some fullName \<Rightarrow>
                      (case index0 (strings_Split fullName CHR ''/'') of
                         Inl s \<Rightarrow> Inl s
                       | Inr namespace \<Rightarrow>
                           (case gh_Name repo of
                              None \<Rightarrow> Inl Panic
                            | Some name \<Rightarrow>
                                (case gh_Private repo of
                                   None \<Rightarrow> Inl Panic
                                 | Some private \<Rightarrow>
                                     Inr (Some \<lparr>CloneURL = getCloneURL useHTTPSClone
                                                     (orEmpty (gh_CloneURL repo))
                                                     (orEmpty (gh_SSHURL repo)),
                                                 Name = name,
                                                 Namespace = namespace,
                                                 Private = private\<rparr>)))))))"

text \<open>
  \<^verbatim>\<open>options := github.ActivityListStarredOptions{}\<close>: the first request carries the
  zero page. Besides the result and the requests sent, the client is returned with
  the replies that are still unread.
\<close>

definition getGithubStarredRepositories :: "bool \<Rightarrow> github_Client \<Rightarrow> bool
    \<Rightarrow> result \<times> github_request list \<times> github_Client" where
  "getGithubStarredRepositories useHTTPSClone client ignoreFork =
     (case listPages False Activity_ListStarred (githubStarredItem useHTTPSClone ignoreFork)
             (Activity_ListStarred_replies client) 0 [] [] of
        (res, sent, rest) \<Rightarrow> (res, sent, client\<lparr>Activity_ListStarred_replies := rest\<rparr>))"

text \<open>
  \<^verbatim>\<open>getGithubRepositories\<close>: the starred selector is a branch of its own, taken
  before the whitelist is looked at;
  \<^verbatim>\<open>options := github.RepositoryListOptions{Type: githubRepoType}\<close> otherwise.
\<close>

definition getGithubRepositories :: "bool \<Rightarrow> github_Client \<Rightarrow> string \<Rightarrow> string list \<Rightarrow> bool
    \<Rightarrow> result \<times> github_request list \<times> github_Client" where
  "getGithubRepositories useHTTPSClone client githubRepoType githubNamespaceWhitelist ignoreFork =
     (if githubRepoType = ''starred'' then
        getGithubStarredRepositories useHTTPSClone client ignoreFork
      else
        (case listPages False (Repositories_List githubRepoType)
                (githubItem useHTTPSClone githubNamespaceWhitelist ignoreFork)
                (Repositories_List_replies client) 0 [] [] of
           (res, sent, rest) \<Rightarrow> (res, sent, client\<lparr>Repositories_List_replies := rest\<rparr>)))"

section \<open>GitLab adapter\<close>

text \<open>
  The fields of \<^verbatim>\<open>gitlab.Project\<close> the adapter reads. \<^verbatim>\<open>ForkedFromProject\<close> is a
  pointer, nil for a project that is not a fork; of the parent only its presence is
  used, so it is kept as the parent's path.
\<close>

record gitlab_Project =
  gl_ForkedFromProject :: "string option"
  gl_PathWithNamespace :: string
  gl_WebURL :: string
  gl_SSHURLToRepo :: string
  gl_Name :: string
  gl_Visibility :: string

text \<open>
  \<^verbatim>\<open>gitlab.ListProjectsOptions\<close>: the optional fields are pointers, nil when unset;
  \<^verbatim>\<open>ListOptions.Page\<close> is the page cursor.
\<close>

record gitlab_ListProjectsOptions =
  Owned :: "bool option"
  Membership :: "bool option"
  Starred :: "bool option"
  Visibility :: "string option"
  Page :: int

definition gitlabListOptions0 :: gitlab_ListProjectsOptions where
  "gitlabListOptions0 =
     \<lparr>Owned = None, Membership = None, Starred = None, Visibility = None, Page = 0\<rparr>"

text \<open>\<^verbatim>\<open>switch gitlabProjectMembershipType\<close> (lines 22 to 33): no default case.\<close>

definition gitlabMembership :: "string \<Rightarrow> gitlab_ListProjectsOptions
    \<Rightarrow> gitlab_ListProjectsOptions" where
  "gitlabMembership gitlabProjectMembershipType opts =
     (if gitlabProjectMembershipType = ''owner'' then opts\<lparr>Owned := Some True\<rparr>
      else if gitlabProjectMembershipType = ''member'' then opts\<lparr>Membership := Some True\<rparr>
      else if gitlabProjectMembershipType = ''starred'' then opts\<lparr>Starred := Some True\<rparr>
      else if gitlabProjectMembershipType = ''all'' then
        opts\<lparr>Owned := Some True, Membership := Some True, Starred := Some True\<rparr>
      else opts)"

text \<open>
  \<^verbatim>\<open>if gitlabProjectVisibility != "all" { switch ... }\<close> (lines 35 to 47): the
  variable \<^verbatim>\<open>visibility\<close> keeps its zero value, the empty string, when no case
  matches, and its address is stored all the same.
\<close>

definition gitlabVisibility :: "string \<Rightarrow> gitlab_ListProjectsOptions
    \<Rightarrow> gitlab_ListProjectsOptions" where
  "gitlabVisibility gitlabProjectVisibility opts =
     (if gitlabProjectVisibility \<noteq> ''all'' then
        opts\<lparr>Visibility := Some
          (if gitlabProjectVisibility = ''public'' then ''public''
           else if gitlabProjectVisibility = ''private'' then ''private''
           else if gitlabProjectVisibility = ''internal''
                   \<or> gitlabProjectVisibility = ''default'' then ''internal''
           else [])\<rparr>
      else opts)"

text \<open>Body of the item loop of \<^verbatim>\<open>getGitlabRepositories\<close> (lines 54 to 66).\<close>

definition gitlabItem :: "bool \<Rightarrow> bool \<Rightarrow> gitlab_Project \<Rightarrow> stop + Repository option" where
  "gitlabItem useHTTPSClone ignoreFork repo =
     (if gl_ForkedFromProject repo \<noteq> None \<and> ignoreFork then Inr None
      else
        (case index0 (strings_Split (gl_PathWithNamespace repo) CHR ''/'') of
           Inl s \<Rightarrow> Inl s
         | Inr namespace \<Rightarrow>
             Inr (Some \<lparr>CloneURL = getCloneURL useHTTPSClone (gl_WebURL repo)
                                     (gl_SSHURLToRepo repo),
                         Name = gl_Name repo,
                         Namespace = namespace,
                         Private = (gl_Visibility repo = ''private'')\<rparr>)))"

text \<open>
  \<^verbatim>\<open>getGitlabRepositories\<close>: the client is the script of replies of
  \<^verbatim>\<open>client.Projects.ListProjects\<close>; each request is the options value it was called
  with.
\<close>

definition getGitlabRepositories :: "bool \<Rightarrow> gitlab_Project reply list \<Rightarrow> string \<Rightarrow> string
    \<Rightarrow> bool \<Rightarrow> (gitlab_Project, gitlab_ListProjectsOptions) listing" where
  "getGitlabRepositories useHTTPSClone client gitlabProjectVisibility
       gitlabProjectMembershipType ignoreFork =
     listPages False
       (\<lambda>page. (gitlabVisibility gitlabProjectVisibility
                   (gitlabMembership gitlabProjectMembershipType gitlabListOptions0))
                 \<lparr>Page := page\<rparr>)
       (gitlabItem useHTTPSClone ignoreFork) client 0 [] []"

section \<open>Forgejo adapter\<close>

record forgejo_User =
  fj_UserName :: string
  fj_ID :: int

text \<open>
  The fields of \<^verbatim>\<open>forgejo.Repository\<close> the adapter reads; \<^verbatim>\<open>Owner\<close> is a pointer.
\<close>

record forgejo_Repository =
  fj_CloneURL :: string
  fj_SSHURL :: string
  fj_Name :: string
  fj_Owner :: "forgejo_User option"
  fj_Private :: bool

text \<open>
  The calls the adapter makes: \<open>SearchRepos page starredByUserID\<close> and
  \<open>ListMyRepos page\<close> are the listing calls.
\<close>

datatype forgejo_request =
  GetMyUserInfo
| SearchRepos int int
| ListMyRepos int

record forgejo_Client =
  GetMyUserInfo_reply :: "error + forgejo_User"
  SearchRepos_replies :: "forgejo_Repository reply list"
  ListMyRepos_replies :: "forgejo_Repository reply list"

text \<open>
  Body of the item loop of \<^verbatim>\<open>paginateForgejoRepositories\<close> (lines 61 to 68):
  nothing is skipped; \<^verbatim>\<open>repo.Owner.UserName\<close> dereferences the owner.
\<close>

definition forgejoItem :: "bool \<Rightarrow> forgejo_Repository \<Rightarrow> stop + Repository option" where
  "forgejoItem useHTTPSClone repo =
     (case fj_Owner repo of
        None \<Rightarrow> Inl Panic
      | Some owner \<Rightarrow>
          Inr (Some \<lparr>CloneURL = getCloneURL useHTTPSClone (fj_CloneURL repo) (fj_SSHURL repo),
                      Name = fj_Name repo,
                      Namespace = fj_UserName owner,
                      Private = fj_Private repo\<rparr>))"

text \<open>
  \<^verbatim>\<open>paginateForgejoRepositories(fetch)\<close>: the closure \<^verbatim>\<open>fetch\<close> is the request it
  builds from the page and the script of replies of the call it wraps;
  \<^verbatim>\<open>page := 1\<close>.
\<close>

definition paginateForgejoRepositories :: "bool \<Rightarrow> (int \<Rightarrow> forgejo_request)
    \<Rightarrow> forgejo_Repository reply list \<Rightarrow> (forgejo_Repository, forgejo_request) listing" where
  "paginateForgejoRepositories useHTTPSClone fetch_request fetch_replies =
     listPages True fetch_request (forgejoItem useHTTPSClone) fetch_replies 1 [] []"

text \<open>
  \<^verbatim>\<open>if err != nil { return nil, fmt.Errorf("<context>: %v", err) }; return repos, nil\<close>
  after the call of \<^verbatim>\<open>paginateForgejoRepositories\<close>.
\<close>

fun errorfResult :: "string \<Rightarrow> result \<Rightarrow> result" where
  "errorfResult context (Inl (ReturnErr err)) =
     Inl (ReturnErr (Errorf (context @ errorString err)))"
| "errorfResult context res = res"

text \<open>
  \<^verbatim>\<open>getForgejoRepositories\<close>: \<^verbatim>\<open>switch forgejoRepoType\<close> with the cases
  \<^verbatim>\<open>"starred"\<close>, \<^verbatim>\<open>"user", ""\<close> and \<^verbatim>\<open>default\<close>. An error of
  \<^verbatim>\<open>client.GetMyUserInfo()\<close> goes to \<^verbatim>\<open>log.Fatalf\<close>.
\<close>

definition getForgejoRepositories :: "bool \<Rightarrow> forgejo_Client \<Rightarrow> string
    \<Rightarrow> result \<times> forgejo_request list \<times> forgejo_Client" where
  "getForgejoRepositories useHTTPSClone client forgejoRepoType =
     (if forgejoRepoType = ''starred'' then
        (case GetMyUserInfo_reply client of
           Inl err \<Rightarrow>
             (Inl (LogFatal (''Error fetching user info from forgejo: '' @ errorString err)),
              [GetMyUserInfo], client)
         | Inr user \<Rightarrow>
             (case paginateForgejoRepositories useHTTPSClone
                     (\<lambda>page. SearchRepos page (fj_ID user)) (SearchRepos_replies client) of
                (res, sent, rest) \<Rightarrow>
                  (errorfResult ''fetching starred repositories from forgejo: '' res,
                   GetMyUserInfo # sent, client\<lparr>SearchRepos_replies := rest\<rparr>)))
      else if forgejoRepoType = ''user'' \<or> forgejoRepoType = [] then
        (case paginateForgejoRepositories useHTTPSClone ListMyRepos
                (ListMyRepos_replies client) of
           (res, sent, rest) \<Rightarrow>
             (errorfResult ''fetching user repositories from forgejo: '' res,
              sent, client\<lparr>ListMyRepos_replies := rest\<rparr>))
      else (Inl (ReturnErr (Errorf (''unknown repo type: '' @ forgejoRepoType))), [], client))"

section \<open>Bitbucket adapter\<close>

text \<open>
  \<^verbatim>\<open>repo.Links\<close> is a \<^verbatim>\<open>map[string]interface{}\<close> decoded from JSON; the values the
  adapter tells apart are strings, arrays and objects.
\<close>

datatype json = JString string | JArray "json list" | JObject "(string \<times> json) list" | JOther

record bitbucket_Repository =
  bb_Full_name :: string
  bb_Slug :: string
  bb_Is_private :: bool
  bb_Links :: "(string \<times> json) list"

text \<open>
  \<^verbatim>\<open>linkmap["href"].(string)\<close>: a type assertion without the \<^verbatim>\<open>ok\<close> result panics
  when the value is missing or not a string.
\<close>

fun assertString :: "json option \<Rightarrow> stop + string" where
  "assertString (Some (JString v)) = Inr v"
| "assertString other = Inl Panic"

text \<open>
  The loop of \<^verbatim>\<open>extractBitbucketCloneURLs\<close> (lines 51 to 64) over the elements of
  \<^verbatim>\<open>links["clone"]\<close>, with the two named results as loop state.
\<close>

fun cloneLinks :: "json list \<Rightarrow> string \<Rightarrow> string \<Rightarrow> stop + (string \<times> string)" where
  "cloneLinks [] httpsURL sshURL = Inr (httpsURL, sshURL)"
| "cloneLinks (JObject linkmap # rest) httpsURL sshURL =
     (case (if map_of linkmap ''name'' = Some (JString ''https'')
            then assertString (map_of linkmap ''href'') else Inr httpsURL) of
        Inl s \<Rightarrow> Inl s
      | Inr httpsURL' \<Rightarrow>
          (case (if map_of linkmap ''name'' = Some (JString ''ssh'')
                 then assertString (map_of linkmap ''href'') else Inr sshURL) of
             Inl s \<Rightarrow> Inl s
           | Inr sshURL' \<Rightarrow> cloneLinks rest httpsURL' sshURL'))"
| "cloneLinks (other # rest) httpsURL sshURL = cloneLinks rest httpsURL sshURL"

definition extractBitbucketCloneURLs :: "(string \<times> json) list \<Rightarrow> stop + (string \<times> string)" where
  "extractBitbucketCloneURLs links =
     (case map_of links ''clone'' of
        Some (JArray linkmaps) \<Rightarrow> cloneLinks linkmaps [] []
      | _ \<Rightarrow> Inr ([], []))"

text \<open>Body of the item loop of \<^verbatim>\<open>getBitbucketRepositories\<close> (lines 28 to 40).\<close>

definition bitbucketItem :: "bool \<Rightarrow> bitbucket_Repository \<Rightarrow> stop + Repository option" where
  "bitbucketItem useHTTPSClone repo =
     (case index0 (strings_Split (bb_Full_name repo) CHR ''/'') of
        Inl s \<Rightarrow> Inl s
      | Inr namespace \<Rightarrow>
          (case extractBitbucketCloneURLs (bb_Links repo) of
             Inl s \<Rightarrow> Inl s
           | Inr (httpsURL, sshURL) \<Rightarrow>
               Inr (Some \<lparr>CloneURL = getCloneURL useHTTPSClone httpsURL sshURL,
                           Name = bb_Slug repo,
                           Namespace = namespace,
                           Private = bb_Is_private repo\<rparr>)))"

text \<open>
  The client: the reply of \<^verbatim>\<open>client.Workspaces.List()\<close> (the slugs of the workspaces)
  and, per owner, the reply of \<^verbatim>\<open>client.Repositories.ListForAccount\<close>.
\<close>

datatype bitbucket_request = Workspaces_List | Repositories_ListForAccount string

record bitbucket_Client =
  Workspaces_List_reply :: "error + string list"
  Repositories_ListForAccount_reply :: "string \<Rightarrow> error + bitbucket_Repository list"

text \<open>The loop \<^verbatim>\<open>for _, workspace := range resp.Workspaces\<close> (lines 20 to 41).\<close>

fun bitbucketWorkspaces :: "bool \<Rightarrow> (string \<Rightarrow> error + bitbucket_Repository list)
    \<Rightarrow> string list \<Rightarrow> Repository list \<Rightarrow> bitbucket_request list
    \<Rightarrow> result \<times> bitbucket_request list" where
  "bitbucketWorkspaces useHTTPSClone listForAccount [] repositories sent =
     (Inr repositories, sent)"
| "bitbucketWorkspaces useHTTPSClone listForAccount (slug # rest) repositories sent =
     (case listForAccount slug of
        Inl err \<Rightarrow> (Inl (ReturnErr err), sent @ [Repositories_ListForAccount slug])
      | Inr items \<Rightarrow>
          (case rangeAppend (bitbucketItem useHTTPSClone) items repositories of
             Inl s \<Rightarrow> (Inl s, sent @ [Repositories_ListForAccount slug])
           | Inr repositories' \<Rightarrow>
               bitbucketWorkspaces useHTTPSClone listForAccount rest repositories'
                 (sent @ [Repositories_ListForAccount slug])))"

definition getBitbucketRepositories :: "bool \<Rightarrow> bitbucket_Client
    \<Rightarrow> result \<times> bitbucket_request list" where
  "getBitbucketRepositories useHTTPSClone client =
     (case Workspaces_List_reply client of
        Inl err \<Rightarrow> (Inl (ReturnErr err), [Workspaces_List])
      | Inr workspaces \<Rightarrow>
          bitbucketWorkspaces useHTTPSClone (Repositories_ListForAccount_reply client)
            workspaces [] [Workspaces_List])"

section \<open>Vocabulary for the statements about listings\<close>

text \<open>The items of a reply, and of a script of replies, in page order.\<close>

definition itemsOf :: "'p reply \<Rightarrow> 'p list" where
  "itemsOf reply = (case reply of Inl err \<Rightarrow> [] | Inr (repos, resp) \<Rightarrow> repos)"

definition payload :: "'p reply list \<Rightarrow> 'p list" where
  "payload script = concat (map itemsOf script)"

text \<open>
  \<open>builds item kept rs\<close>: the repositories \<open>rs\<close> are, one by one and in order, what the
  item body appends for the payload items \<open>kept\<close>.
\<close>

definition builds :: "('p \<Rightarrow> stop + Repository option) \<Rightarrow> 'p list \<Rightarrow> Repository list
    \<Rightarrow> bool" where
  "builds item kept rs = list_all2 (\<lambda>p r. item p = Inr (Some r)) kept rs"

text \<open>The item body does not panic on \<open>p\<close>.\<close>

fun noPanic :: "('p \<Rightarrow> stop + Repository option) \<Rightarrow> 'p \<Rightarrow> bool" where
  "noPanic item p = (case item p of Inl s \<Rightarrow> False | Inr x \<Rightarrow> True)"

text \<open>
  A reply after which the loop asks for another page: no error, a response with a
  non-zero \<^verbatim>\<open>NextPage\<close>, and items the body does not panic on.
\<close>

fun turnsPage :: "('p \<Rightarrow> stop + Repository option) \<Rightarrow> 'p reply \<Rightarrow> bool" where
  "turnsPage item (Inl err) = False"
| "turnsPage item (Inr (repos, None)) = False"
| "turnsPage item (Inr (repos, Some n)) = (n \<noteq> 0 \<and> list_all (noPanic item) repos)"

fun nextOf :: "'p reply \<Rightarrow> int" where
  "nextOf (Inr (repos, Some n)) = n"
| "nextOf r = 0"

text \<open>What the item loop appends for a page when nothing panics.\<close>

fun appended :: "('p \<Rightarrow> stop + Repository option) \<Rightarrow> 'p list \<Rightarrow> Repository list" where
  "appended item [] = []"
| "appended item (p # ps) =
     (case item p of Inr (Some r) \<Rightarrow> r # appended item ps | _ \<Rightarrow> appended item ps)"

section \<open>The init subcommand\<close>

text \<open>\<^verbatim>\<open>fileConfig\<close> and its nested structs (config_file.go, lines 38 to 63).\<close>

record githubConfig =
  github_RepoType :: string
  github_NamespaceWhitelist :: "string list"

record gitlabConfig =
  gitlab_ProjectVisibility :: string
  gitlab_ProjectMembershipType :: string

record forgejoConfig =
  forgejo_RepoType :: string

record fileConfig =
  Service :: string
  GitHostURL :: string
  BackupDir :: string
  IgnorePrivate :: bool
  IgnoreFork :: bool
  UseHTTPSClone :: bool
  Bare :: bool
  GitHub :: githubConfig
  GitLab :: gitlabConfig
  Forgejo :: forgejoConfig

definition defaultConfigFile :: string where
  "defaultConfigFile = ''gitbackup.yml''"

definition defaultFileConfig :: fileConfig where
  "defaultFileConfig =
     \<lparr>Service = ''github'',
      GitHostURL = [],
      BackupDir = [],
      IgnorePrivate = False,
      IgnoreFork = False,
      UseHTTPSClone = False,
      Bare = False,
      GitHub = \<lparr>github_RepoType = ''all'', github_NamespaceWhitelist = []\<rparr>,
      GitLab = \<lparr>gitlab_ProjectVisibility = ''internal'',
                gitlab_ProjectMembershipType = ''all''\<rparr>,
      Forgejo = \<lparr>forgejo_RepoType = ''user''\<rparr>\<rparr>"

text \<open>
  The flags of \<^verbatim>\<open>appFlags()\<close> (options.go, lines 12 to 110) with their default
  values: the declared \<^verbatim>\<open>Value\<close>, or the zero value of the flag's type when none
  is declared. \<^verbatim>\<open>defaultMaxUserMigrationRetry\<close> is 5 (main.go, line 15).
\<close>

datatype flagValue = StringValue string | BoolValue bool | IntValue int

definition defaultMaxUserMigrationRetry :: int where
  "defaultMaxUserMigrationRetry = 5"

definition appFlags :: "(string \<times> flagValue) list" where
  "appFlags =
     [(''config'', StringValue []),
      (''service'', StringValue []),
      (''githost.url'', StringValue []),
      (''backupdir'', StringValue []),
      (''ignore-private'', BoolValue False),
      (''ignore-fork'', BoolValue False),
      (''use-https-clone'', BoolValue False),
      (''bare'', BoolValue False),
      (''github.repoType'', StringValue ''all''),
      (''github.namespaceWhitelist'', StringValue []),
      (''github.createUserMigration'', BoolValue False),
      (''github.createUserMigrationRetry'', BoolValue True),
      (''github.createUserMigrationRetryMax'', IntValue defaultMaxUserMigrationRetry),
      (''github.listUserMigrations'', BoolValue False),
      (''github.waitForUserMigration'', BoolValue True),
      (''gitlab.projectVisibility'', StringValue ''internal''),
      (''gitlab.projectMembershipType'', StringValue ''all''),
      (''forgejo.repoType'', StringValue ''user'')]"

text \<open>
  The operating system and the libraries \<^verbatim>\<open>handleInitConfig\<close> calls, as the answers
  they give: \<^verbatim>\<open>os.UserConfigDir\<close>, \<^verbatim>\<open>os.Stat\<close> (its error; \<open>None\<close> is
  \<^verbatim>\<open>err == nil\<close>, the path exists), \<^verbatim>\<open>os.MkdirAll\<close>, \<^verbatim>\<open>os.WriteFile\<close>,
  \<^verbatim>\<open>filepath.Dir\<close>, \<^verbatim>\<open>filepath.Join\<close> and \<^verbatim>\<open>yaml.Marshal\<close>.
\<close>

record os_env =
  os_UserConfigDir :: "error + string"
  os_Stat :: "string \<Rightarrow> error option"
  os_MkdirAll :: "string \<Rightarrow> error option"
  os_WriteFile :: "string \<Rightarrow> string \<Rightarrow> error option"
  filepath_Dir :: "string \<Rightarrow> string"
  filepath_Join :: "string list \<Rightarrow> string"
  yaml_Marshal :: "fileConfig \<Rightarrow> error + string"

text \<open>
  The calls that change the file system or print, in the order made, with their
  arguments (the permission bits \<^verbatim>\<open>0755\<close> and \<^verbatim>\<open>0644\<close> as written).
\<close>

datatype effect = MkdirAll string string | WriteFile string string string | Printf string

definition defaultConfigPath :: "os_env \<Rightarrow> error + string" where
  "defaultConfigPath env =
     (case os_UserConfigDir env of
        Inl err \<Rightarrow> Inl (Errorf (''unable to determine config directory: '' @ errorString err))
      | Inr configDir \<Rightarrow> Inr (filepath_Join env [configDir, ''gitbackup'', defaultConfigFile]))"

definition resolveConfigPath :: "os_env \<Rightarrow> string \<Rightarrow> error + string" where
  "resolveConfigPath env configPath =
     (if configPath \<noteq> [] then Inr configPath else defaultConfigPath env)"

text \<open>
  \<^verbatim>\<open>handleInitConfig\<close> (lines 91 to 120): the returned error (\<open>None\<close> is nil) and the
  effects.
\<close>

definition handleInitConfig :: "os_env \<Rightarrow> string \<Rightarrow> error option \<times> effect list" where
  "handleInitConfig env configPath =
     (case resolveConfigPath env configPath of
        Inl err \<Rightarrow> (Some err, [])
      | Inr path \<Rightarrow>
          if os_Stat env path = None then (Some (Errorf (path @ '' already exists'')), [])
          else
            (let dir = filepath_Dir env path in
             case os_MkdirAll env dir of
               Some err \<Rightarrow>
                 (Some (Errorf (''error creating directory '' @ dir @ '': '' @ errorString err)),
                  [MkdirAll dir ''0755''])
             | None \<Rightarrow>
                 (case yaml_Marshal env defaultFileConfig of
                    Inl err \<Rightarrow>
                      (Some (Errorf (''error generating config: '' @ errorString err)),
                       [MkdirAll dir ''0755''])
                  | Inr data \<Rightarrow>
                      (case os_WriteFile env path data of
                         Some err \<Rightarrow>
                           (Some (Errorf (''error writing '' @ path @ '': '' @ errorString err)),
                            [MkdirAll dir ''0755'', WriteFile path data ''0644''])
                       | None \<Rightarrow>
                           (None,
                            [MkdirAll dir ''0755'', WriteFile path data ''0644'',
                             Printf (''Created '' @ path @ [CHR 0x0A])])))))"

section \<open>Private repositories, synchronization and the worker pool\<close>

text \<open>
  Modelled from the spec: the code that reads the package variable
  \<^verbatim>\<open>ignorePrivate\<close> (declared in main.go) is not among the sources. The spec
  (discovery): "Applies ignore-private: drops repositories with private == true", and
  the output order is the adapter's order.
\<close>

definition applyIgnorePrivate :: "bool \<Rightarrow> Repository list \<Rightarrow> Repository list" where
  "applyIgnorePrivate ignorePrivate repositories =
     (if ignorePrivate then filter (\<lambda>r. \<not> Private r) repositories else repositories)"

text \<open>
  Modelled from the spec: the synchronization engine (\<^verbatim>\<open>handleGitRepositoryClone\<close>
  and the backup of one repository) is not among the sources. The spec
  (synchronization engine): the target path is "backupRoot/service/namespace/name
  (append .git suffix and request a bare clone when bare mode is set)"; per target
  path, "if the path does not exist: fresh clone; if it exists and is already a git
  repository of the matching kind: update (fetch all refs); if it exists but is not a
  git repository of the expected kind: treat as a conflict and fail that single item
  without aborting the run"; the external git tool's "exit code is the sole
  success/failure signal"; the summary is the "count succeeded, list of (repository,
  error) failures". The backup root is a map from paths to what is there; a clone
  whose tool run succeeds leaves a store of the requested kind at the target path, and
  nothing else changes the map. Items are taken in list order: the spec gives every
  worker a target path of its own, so the order of completion does not show in the
  result.
\<close>

datatype entry = GitStore bool | NotGit

type_synonym filesystem = "string \<Rightarrow> entry option"

datatype operation = Clone | Update | Conflict

datatype failure = ToolFailed | PathConflict

record syncConfig =
  backupRoot :: string
  service :: string
  bare :: bool

text \<open>
  Modelled from the spec: the target path of a repository,
  "backupRoot/service/namespace/name (append .git suffix ... when bare mode is set)";
  the code that builds it is not among the sources.
\<close>

definition targetPath :: "syncConfig \<Rightarrow> Repository \<Rightarrow> string" where
  "targetPath cfg r =
     backupRoot cfg @ ''/'' @ service cfg @ ''/'' @ Namespace r @ ''/'' @ Name r
       @ (if bare cfg then ''.git'' else [])"

text \<open>
  Modelled from the spec: the operation chosen for a target path (absent: fresh clone;
  a git repository of the matching kind: update; anything else: conflict); the code
  that chooses is not among the sources.
\<close>

definition decide :: "filesystem \<Rightarrow> syncConfig \<Rightarrow> Repository \<Rightarrow> operation" where
  "decide fs cfg r =
     (case fs (targetPath cfg r) of
        None \<Rightarrow> Clone
      | Some (GitStore b) \<Rightarrow> if b = bare cfg then Update else Conflict
      | Some NotGit \<Rightarrow> Conflict)"

record runState =
  files :: filesystem
  operations :: "(string \<times> operation) list"
  succeeded :: nat
  failed :: "(Repository \<times> failure) list"

text \<open>
  Modelled from the spec: the clone or update of one repository and its entry in the
  summary; the code (the backup of one repository) is not among the sources.
  \<open>git op path\<close> says whether the tool run of \<open>op\<close> at \<open>path\<close> exits with success.
\<close>

definition syncItem :: "(operation \<Rightarrow> string \<Rightarrow> bool) \<Rightarrow> syncConfig \<Rightarrow> runState \<Rightarrow> Repository
    \<Rightarrow> runState" where
  "syncItem git cfg st r =
     (let path = targetPath cfg r;
          op = decide (files st) cfg r;
          st' = st\<lparr>operations := operations st @ [(path, op)]\<rparr>
      in case op of
           Conflict \<Rightarrow> st'\<lparr>failed := failed st @ [(r, PathConflict)]\<rparr>
         | Clone \<Rightarrow>
             if git Clone path
             then st'\<lparr>files := (files st)(path \<mapsto> GitStore (bare cfg)),
                      succeeded := Suc (succeeded st)\<rparr>
             else st'\<lparr>failed := failed st @ [(r, ToolFailed)]\<rparr>
         | Update \<Rightarrow>
             if git Update path
             then st'\<lparr>succeeded := Suc (succeeded st)\<rparr>
             else st'\<lparr>failed := failed st @ [(r, ToolFailed)]\<rparr>)"

text \<open>
  Modelled from the spec: a synchronization run over the discovered repositories, from
  an empty summary; \<^verbatim>\<open>handleGitRepositoryClone\<close> is not among the sources.
\<close>

definition sync :: "(operation \<Rightarrow> string \<Rightarrow> bool) \<Rightarrow> syncConfig \<Rightarrow> Repository list \<Rightarrow> filesystem
    \<Rightarrow> runState" where
  "sync git cfg repositories fs =
     foldl (syncItem git cfg)
       \<lparr>files = fs, operations = [], succeeded = 0, failed = []\<rparr> repositories"

text \<open>\<^verbatim>\<open>const MaxConcurrentClones = 20\<close> (main.go, line 13).\<close>

definition MaxConcurrentClones :: nat where
  "MaxConcurrentClones = 20"

text \<open>
  Modelled from the spec: the worker pool is part of the synchronization engine, which
  is not among the sources (only the constant \<^verbatim>\<open>MaxConcurrentClones\<close> is). The spec:
  "Dispatches operations to a fixed-size worker pool (ceiling = a configured maximum,
  default 20 concurrent operations)", "a fixed set of tasks/threads consuming from a
  shared queue". A state holds the repositories still queued, those whose operation is
  in flight and those finished; a step dispatches the head of the queue to a free
  worker, or completes the in-flight operation at a given position.
\<close>

record pool =
  queued :: "Repository list"
  inFlight :: "Repository list"
  finished :: "Repository list"

datatype event = Dispatch | Complete nat

text \<open>
  Modelled from the spec: one step of the worker pool; a dispatch needs a repository
  in the queue and fewer operations in flight than the ceiling.
\<close>

fun poolStep :: "nat \<Rightarrow> pool \<Rightarrow> event \<Rightarrow> pool option" where
  "poolStep ceiling s Dispatch =
     (case queued s of
        [] \<Rightarrow> None
      | r # rest \<Rightarrow>
          if length (inFlight s) < ceiling
          then Some (s\<lparr>queued := rest, inFlight := inFlight s @ [r]\<rparr>)
          else None)"
| "poolStep ceiling s (Complete i) =
     (if i < length (inFlight s)
      then Some (s\<lparr>inFlight := take i (inFlight s) @ drop (Suc i) (inFlight s),
                   finished := finished s @ [inFlight s ! i]\<rparr>)
      else None)"

text \<open>
  Modelled from the spec: a run of the worker pool, step by step; \<open>None\<close> when a step
  is not enabled in the state it is taken in.
\<close>

fun poolRun :: "nat \<Rightarrow> pool \<Rightarrow> event list \<Rightarrow> pool option" where
  "poolRun ceiling s [] = Some s"
| "poolRun ceiling s (e # es) =
     (case poolStep ceiling s e of
        None \<Rightarrow> None
      | Some s' \<Rightarrow> poolRun ceiling s' es)"

text \<open>
  Modelled from the spec: the pool at the start of a run, with every discovered
  repository queued and nothing in flight.
\<close>

definition poolStart :: "Repository list \<Rightarrow> pool" where
  "poolStart repositories = \<lparr>queued = repositories, inFlight = [], finished = []\<rparr>"

text \<open>
  The listing of a Bitbucket workspace succeeds: no error, and items the body does not
  panic on.
\<close>

definition accountListed :: "bool \<Rightarrow> (string \<Rightarrow> error + bitbucket_Repository list) \<Rightarrow> string \<Rightarrow> bool" where
  "accountListed u listForAccount slug =
     (case listForAccount slug of
        Inl err \<Rightarrow> False
      | Inr items \<Rightarrow> list_all (noPanic (bitbucketItem u)) items)"

section \<open>Example providers\<close>

text \<open>Small provider scripts on which the statements below are run.\<close>

definition ex_repo :: "string \<Rightarrow> string \<Rightarrow> bool \<Rightarrow> bool \<Rightarrow> github_Repository" where
  "ex_repo owner name fork private =
     \<lparr>gh_Fork = Some fork, gh_FullName = Some (owner @ ''/'' @ name),
      gh_CloneURL = Some (''https://h/'' @ name), gh_SSHURL = Some (''git@h:'' @ name),
      gh_Name = Some name, gh_Private = Some private\<rparr>"

definition ex_github :: github_Client where
  "ex_github =
     \<lparr>Repositories_List_replies =
        [Inr ([ex_repo ''acme'' ''api'' False False, ex_repo ''acme'' ''fork'' True False],
              Some 2),
         Inr ([ex_repo ''other'' ''tool'' False True], Some 0)],
      Activity_ListStarred_replies =
        [Inr ([\<lparr>star_Repository = Some (ex_repo ''other'' ''tool'' False False)\<rparr>], Some 5),
         Inr ([\<lparr>star_Repository = Some (ex_repo ''acme'' ''fork'' True False)\<rparr>], Some 0)]\<rparr>"

definition ex_project :: "string \<Rightarrow> string \<Rightarrow> string option \<Rightarrow> string \<Rightarrow> gitlab_Project" where
  "ex_project ns name parent vis =
     \<lparr>gl_ForkedFromProject = parent, gl_PathWithNamespace = ns @ ''/'' @ name,
      gl_WebURL = ''https://h/'' @ name, gl_SSHURLToRepo = ''git@h:'' @ name,
      gl_Name = name, gl_Visibility = vis\<rparr>"

definition ex_gitlab :: "gitlab_Project reply list" where
  "ex_gitlab =
     [Inr ([ex_project ''acme'' ''site'' None ''internal'',
            ex_project ''acme'' ''copy'' (Some ''up/copy'') ''public''], Some 2),
      Inr ([ex_project ''acme'' ''keys'' None ''private''], Some 0)]"

definition ex_forgejo_repo :: "string \<Rightarrow> string \<Rightarrow> bool \<Rightarrow> forgejo_Repository" where
  "ex_forgejo_repo owner name private =
     \<lparr>fj_CloneURL = ''https://h/'' @ name, fj_SSHURL = ''git@h:'' @ name, fj_Name = name,
      fj_Owner = Some \<lparr>fj_UserName = owner, fj_ID = 7\<rparr>, fj_Private = private\<rparr>"

definition ex_forgejo :: forgejo_Client where
  "ex_forgejo =
     \<lparr>GetMyUserInfo_reply = Inr \<lparr>fj_UserName = ''alice'', fj_ID = 7\<rparr>,
      SearchRepos_replies =
        [Inr ([ex_forgejo_repo ''bob'' ''lib'' False], Some 2),
         Inr ([ex_forgejo_repo ''carol'' ''app'' False], Some 0)],
      ListMyRepos_replies =
        [Inr ([ex_forgejo_repo ''alice'' ''dots'' True], Some 2),
         Inr ([ex_forgejo_repo ''alice'' ''blog'' False], None)]\<rparr>"

definition ex_github_down :: github_Client where
  "ex_github_down =
     \<lparr>Repositories_List_replies =
        [Inr ([ex_repo ''acme'' ''api'' False False], Some 2), Inl (ClientError ''boom''),
         Inr ([ex_repo ''other'' ''tool'' False True], Some 0)],
      Activity_ListStarred_replies = [Inl (ClientError ''boom'')]\<rparr>"

definition ex_gitlab_down :: "gitlab_Project reply list" where
  "ex_gitlab_down =
     [Inr ([ex_project ''acme'' ''site'' None ''internal''], Some 2),
      Inl (ClientError ''boom'')]"

definition ex_forgejo_down :: forgejo_Client where
  "ex_forgejo_down =
     \<lparr>GetMyUserInfo_reply = Inr \<lparr>fj_UserName = ''alice'', fj_ID = 7\<rparr>,
      SearchRepos_replies =
        [Inr ([ex_forgejo_repo ''bob'' ''lib'' False], Some 2), Inl (ClientError ''boom'')],
      ListMyRepos_replies = [Inl (ClientError ''boom'')]\<rparr>"

definition ex_forgejo_unauthorized :: forgejo_Client where
  "ex_forgejo_unauthorized =
     \<lparr>GetMyUserInfo_reply = Inl (ClientError ''unauthorized''),
      SearchRepos_replies = [],
      ListMyRepos_replies = []\<rparr>"

definition ex_bitbucket_repo :: "string \<Rightarrow> string \<Rightarrow> bool \<Rightarrow> bitbucket_Repository" where
  "ex_bitbucket_repo workspace slug private =
     \<lparr>bb_Full_name = workspace @ ''/'' @ slug, bb_Slug = slug, bb_Is_private = private,
      bb_Links = [(''clone'',
         JArray [JObject [(''name'', JString ''https''),
                          (''href'', JString (''https://h/'' @ slug))],
                 JObject [(''name'', JString ''ssh''),
                          (''href'', JString (''git@h:'' @ slug))]])]\<rparr>"

definition ex_bitbucket_down :: bitbucket_Client where
  "ex_bitbucket_down =
     \<lparr>Workspaces_List_reply = Inr [''acme'', ''labs'', ''misc''],
      Repositories_ListForAccount_reply =
        (\<lambda>owner. if owner = ''acme'' then Inr [ex_bitbucket_repo ''acme'' ''api'' False]
                  else Inl (ClientError ''boom''))\<rparr>"

definition ex_bitbucket_unreachable :: bitbucket_Client where
  "ex_bitbucket_unreachable =
     \<lparr>Workspaces_List_reply = Inl (ClientError ''boom''),
      Repositories_ListForAccount_reply = (\<lambda>owner. Inr [])\<rparr>"

text \<open>Repositories and a backup configuration for the runs of the engine.\<close>

definition ex_api :: Repository where
  "ex_api = \<lparr>CloneURL = ''git@h:api'', Name = ''api'', Namespace = ''acme'', Private = False\<rparr>"

definition ex_secrets :: Repository where
  "ex_secrets =
     \<lparr>CloneURL = ''git@h:secrets'', Name = ''secrets'', Namespace = ''acme'', Private = True\<rparr>"

definition ex_web :: Repository where
  "ex_web = \<lparr>CloneURL = ''git@h:web'', Name = ''web'', Namespace = ''acme'', Private = False\<rparr>"

definition ex_cfg :: syncConfig where
  "ex_cfg = \<lparr>backupRoot = ''/b'', service = ''github'', bare = False\<rparr>"

text \<open>
  An operating system for the runs of \<^verbatim>\<open>handleInitConfig\<close>: the paths in
  \<open>existing\<close> exist, creating a directory in \<open>blocked\<close> fails (a parent is a regular
  file, say), writing a path in \<open>unwritable\<close> fails. Paths are joined with \<^verbatim>\<open>/\<close>,
  the directory of a path is what stands before its last \<^verbatim>\<open>/\<close>, and a
  configuration is rendered by its service line alone.
\<close>

fun ex_Join :: "string list \<Rightarrow> string" where
  "ex_Join [] = []"
| "ex_Join [p] = p"
| "ex_Join (p # ps) = p @ ''/'' @ ex_Join ps"

definition ex_Dir :: "string \<Rightarrow> string" where
  "ex_Dir path =
     (if CHR ''/'' \<in> set path
      then rev (tl (dropWhile (\<lambda>c. c \<noteq> CHR ''/'') (rev path)))
      else ''.'')"

definition ex_env :: "string list \<Rightarrow> string list \<Rightarrow> string list \<Rightarrow> os_env" where
  "ex_env existing blocked unwritable =
     \<lparr>os_UserConfigDir = Inr ''/home/u/.config'',
      os_Stat = (\<lambda>path. if path \<in> set existing then None
                         else Some (ClientError (''stat '' @ path @ '': no such file''))),
      os_MkdirAll = (\<lambda>dir. if dir \<in> set blocked
                            then Some (ClientError (''mkdir '' @ dir @ '': not a directory''))
                            else None),
      os_WriteFile = (\<lambda>path data. if path \<in> set unwritable
                                  then Some (ClientError (''open '' @ path @ '': permission denied''))
                                  else None),
      filepath_Dir = ex_Dir,
      filepath_Join = ex_Join,
      yaml_Marshal = (\<lambda>cfg. Inr (''service: '' @ Service cfg @ [CHR 0x0A]))\<rparr>"

section \<open>The listing loop\<close>

lemma strings_Split_nonempty: "strings_Split s sep \<noteq> []"
  by (induction s) (auto split: list.splits)

lemma index0_Split: "\<exists>w. index0 (strings_Split s sep) = Inr w"
  using strings_Split_nonempty [of s sep] by (cases "strings_Split s sep") auto

lemma contains_set: "contains xs e \<longleftrightarrow> e \<in> set xs"
  by (induction xs) auto

lemma rangeAppend_builds:
  "rangeAppend item ps acc = Inr out \<Longrightarrow>
   \<exists>kept rs. subseq kept ps \<and> builds item kept rs \<and> out = acc @ rs"
proof (induction ps arbitrary: acc)
  case Nil
  then show ?case by (auto simp: builds_def)
next
  case (Cons p ps)
  show ?case
  proof (cases "item p")
    case (Inl s)
    with Cons.prems show ?thesis by simp
  next
    case (Inr x)
    show ?thesis
    proof (cases x)
      case None
      with Inr Cons.prems have "rangeAppend item ps acc = Inr out" by simp
      from Cons.IH [OF this] obtain kept rs where
        "subseq kept ps" "builds item kept rs" "out = acc @ rs" by blast
      then show ?thesis
        by (intro exI [of _ kept] exI [of _ rs]) (simp add: list_emb_Cons)
    next
      case (Some r)
      with Inr Cons.prems have "rangeAppend item ps (acc @ [r]) = Inr out" by simp
      from Cons.IH [OF this] obtain kept rs where
        k: "subseq kept ps" "builds item kept rs" "out = (acc @ [r]) @ rs" by blast
      show ?thesis
        using k Inr Some
        by (intro exI [of _ "p # kept"] exI [of _ "r # rs"]) (simp add: builds_def)
    qed
  qed
qed

lemma rangeAppend_appended:
  "list_all (noPanic item) ps \<Longrightarrow> rangeAppend item ps acc = Inr (acc @ appended item ps)"
  by (induction ps arbitrary: acc) (auto split: sum.splits option.splits)

lemma appended_append: "appended item (xs @ ys) = appended item xs @ appended item ys"
  by (induction xs) (auto split: sum.splits option.splits)

lemma builds_append:
  "builds item k1 r1 \<Longrightarrow> builds item k2 r2 \<Longrightarrow> builds item (k1 @ k2) (r1 @ r2)"
  by (simp add: builds_def list_all2_appendI)

lemma listPages_builds:
  "listPages g req item script page acc sent = (Inr out, sent', rest) \<Longrightarrow>
   \<exists>kept rs. subseq kept (payload script) \<and> builds item kept rs \<and> out = acc @ rs"
proof (induction script arbitrary: page acc sent)
  case Nil
  then show ?case by simp
next
  case (Cons reply script)
  show ?case
  proof (cases reply)
    case (Inl err)
    with Cons.prems show ?thesis by simp
  next
    case (Inr pr)
    obtain repos resp where pr: "pr = (repos, resp)" by (cases pr)
    show ?thesis
    proof (cases "rangeAppend item repos acc")
      case (Inl s)
      with Cons.prems Inr pr show ?thesis by simp
    next
      case acc': (Inr acc')
      from rangeAppend_builds [OF acc'] obtain k1 r1 where
        k1: "subseq k1 repos" "builds item k1 r1" "acc' = acc @ r1" by blast
      have here: "subseq k1 (payload (reply # script))"
        using k1(1) Inr pr by (simp add: payload_def itemsOf_def list_emb_prefix)
      show ?thesis
      proof (cases "resp = None \<or> resp = Some 0")
        case True
        with Cons.prems Inr pr acc' have "out = acc'"
          by (auto split: if_splits)
        with here k1 show ?thesis by blast
      next
        case False
        then obtain n where n: "resp = Some n" "n \<noteq> 0" by auto
        with Cons.prems Inr pr acc'
        have "listPages g req item script n acc' (sent @ [req page]) = (Inr out, sent', rest)"
          by simp
        from Cons.IH [OF this] obtain k2 r2 where
          k2: "subseq k2 (payload script)" "builds item k2 r2" "out = acc' @ r2" by blast
        have "subseq (k1 @ k2) (payload (reply # script))"
          using k1(1) k2(1) Inr pr
          by (simp add: payload_def itemsOf_def list_emb_append_mono)
        moreover have "builds item (k1 @ k2) (r1 @ r2)"
          using k1(2) k2(2) by (rule builds_append)
        moreover have "out = acc @ (r1 @ r2)" using k1(3) k2(3) by simp
        ultimately show ?thesis by blast
      qed
    qed
  qed
qed

lemma turnsPage_cases:
  assumes "turnsPage item reply"
  obtains repos n where "reply = Inr (repos, Some n)" "n \<noteq> 0" "list_all (noPanic item) repos"
  using assms by (cases "(item, reply)" rule: turnsPage.cases) auto

lemma listPages_turns:
  "list_all (turnsPage item) pre \<Longrightarrow>
   listPages g req item (pre @ rest) page acc sent =
   listPages g req item rest (last (page # map nextOf pre)) (acc @ appended item (payload pre))
     (sent @ map req (butlast (page # map nextOf pre)))"
proof (induction pre arbitrary: page acc sent)
  case Nil
  then show ?case by (simp add: payload_def)
next
  case (Cons reply pre)
  from Cons.prems have "turnsPage item reply" and pre: "list_all (turnsPage item) pre"
    by simp_all
  then obtain repos n where
    r: "reply = Inr (repos, Some n)" "n \<noteq> 0" "list_all (noPanic item) repos"
    by (auto elim: turnsPage_cases)
  show ?case
    using r rangeAppend_appended [OF r(3), of acc] Cons.IH [OF pre, of n]
    by (simp add: payload_def itemsOf_def appended_append)
qed

lemma listPages_error:
  assumes "list_all (turnsPage item) pre"
  shows "listPages g req item (pre @ Inl err # rest) page acc sent =
         (Inl (ReturnErr err), sent @ map req (page # map nextOf pre), rest)"
proof -
  have "butlast (page # map nextOf pre) @ [last (page # map nextOf pre)] = page # map nextOf pre"
    by (rule append_butlast_last_id) simp
  then have "map req (butlast (page # map nextOf pre)) @ [req (last (page # map nextOf pre))]
             = map req (page # map nextOf pre)"
    by (metis list.simps(8,9) map_append)
  then show ?thesis
    unfolding listPages_turns [OF assms] by simp
qed

lemma listPages_sentinel:
  assumes "list_all (turnsPage item) pre" and "list_all (noPanic item) repos"
    and "resp = Some 0 \<or> (g \<and> resp = None)"
  shows "listPages g req item (pre @ Inr (repos, resp) # rest) page acc sent =
         (Inr (acc @ appended item (payload (pre @ [Inr (repos, resp)]))),
          sent @ map req (page # map nextOf pre), rest)"
proof -
  have "butlast (page # map nextOf pre) @ [last (page # map nextOf pre)] = page # map nextOf pre"
    by (rule append_butlast_last_id) simp
  then have "map req (butlast (page # map nextOf pre)) @ [req (last (page # map nextOf pre))]
             = map req (page # map nextOf pre)"
    by (metis list.simps(8,9) map_append)
  moreover have "payload (pre @ [Inr (repos, resp)]) = payload pre @ repos"
    by (simp add: payload_def itemsOf_def)
  ultimately show ?thesis
    unfolding listPages_turns [OF assms(1)]
    using assms(3) rangeAppend_appended [OF assms(2)]
    by (auto simp: appended_append)
qed

lemma listPages_no_sentinel:
  assumes "list_all (turnsPage item) script"
  shows "listPages g req item script page acc sent =
         (Inl NoReply, sent @ map req (page # map nextOf script), [])"
proof -
  have "butlast (page # map nextOf script) @ [last (page # map nextOf script)]
        = page # map nextOf script"
    by (rule append_butlast_last_id) simp
  then have "map req (butlast (page # map nextOf script))
             @ [req (last (page # map nextOf script))]
             = map req (page # map nextOf script)"
    by (metis list.simps(8,9) map_append)
  then show ?thesis
    using listPages_turns [OF assms, of g req "[]" page acc sent] by simp
qed

section \<open>What the adapters keep\<close>

lemma githubItem_Some:
  assumes "githubItem u wl ig p = Inr (Some r)"
  shows "(ig \<longrightarrow> gh_Fork p = Some False)
       \<and> (wl \<noteq> [] \<longrightarrow> Namespace r \<in> set wl)"
  using assms unfolding githubItem_def
  by (auto split: option.splits if_splits sum.splits simp: contains_set)

lemma githubStarredItem_Some:
  assumes "githubStarredItem u ig p = Inr (Some r)"
  shows "\<exists>repo. star_Repository p = Some repo \<and> (ig \<longrightarrow> gh_Fork repo = Some False)"
  using assms unfolding githubStarredItem_def
  by (auto split: option.splits if_splits sum.splits)

lemma gitlabItem_Some:
  assumes "gitlabItem u ig p = Inr (Some r)"
  shows "(ig \<longrightarrow> gl_ForkedFromProject p = None)
       \<and> (Private r \<longleftrightarrow> gl_Visibility p = ''private'')
       \<and> Name r = gl_Name p"
  using assms unfolding gitlabItem_def
  by (auto split: option.splits if_splits sum.splits)

lemma builds_all:
  assumes "builds item kept rs" and "\<And>p r. item p = Inr (Some r) \<Longrightarrow> P p"
  shows "\<forall>p\<in>set kept. P p"
  using assms unfolding builds_def
  by (induction kept rs rule: list_all2_induct) auto

lemma builds_all_out:
  assumes "builds item kept rs" and "\<And>p r. item p = Inr (Some r) \<Longrightarrow> Q r"
  shows "\<forall>r\<in>set rs. Q r"
  using assms unfolding builds_def
  by (induction kept rs rule: list_all2_induct) auto

lemma github_list_builds:
  assumes "t \<noteq> ''starred''"
    and "getGithubRepositories u client t wl ig = (Inr rs, sent, client')"
  shows "\<exists>kept. subseq kept (payload (Repositories_List_replies client))
           \<and> builds (githubItem u wl ig) kept rs"
proof -
  from assms obtain rest where
    "listPages False (Repositories_List t) (githubItem u wl ig)
       (Repositories_List_replies client) 0 [] [] = (Inr rs, sent, rest)"
    unfolding getGithubRepositories_def by (auto split: prod.splits)
  from listPages_builds [OF this] show ?thesis by auto
qed

lemma github_starred_builds:
  assumes "getGithubRepositories u client ''starred'' wl ig = (Inr rs, sent, client')"
  shows "\<exists>kept. subseq kept (payload (Activity_ListStarred_replies client))
           \<and> builds (githubStarredItem u ig) kept rs"
proof -
  from assms obtain rest where
    "listPages False Activity_ListStarred (githubStarredItem u ig)
       (Activity_ListStarred_replies client) 0 [] [] = (Inr rs, sent, rest)"
    unfolding getGithubRepositories_def getGithubStarredRepositories_def
    by (auto split: prod.splits)
  from listPages_builds [OF this] show ?thesis by auto
qed

lemma gitlab_builds:
  assumes "getGitlabRepositories u client v m ig = (Inr rs, sent, rest)"
  shows "\<exists>kept. subseq kept (payload client) \<and> builds (gitlabItem u ig) kept rs"
  using listPages_builds [OF assms [unfolded getGitlabRepositories_def]] by auto

lemmas ex_defs = ex_repo_def ex_github_def ex_project_def ex_gitlab_def ex_forgejo_repo_def
  ex_forgejo_def

lemmas adapter_defs = getGithubRepositories_def getGithubStarredRepositories_def
  githubItem_def githubStarredItem_def getGitlabRepositories_def gitlabItem_def
  getForgejoRepositories_def paginateForgejoRepositories_def forgejoItem_def
  getCloneURL_def


text \<open>
  Claim C1, as amended. For the GitHub service with a repo-type selector other than
  \<^verbatim>\<open>starred\<close> and a non-empty namespace whitelist, a listing that returns never
  returns a repository whose namespace is not an exact string match of a whitelist
  entry. (The starred selector is a branch of its own that is not given the whitelist,
  and the adapters of the other services take no whitelist.)
\<close>

theorem github_whitelist_unstarred:
  assumes "githubRepoType \<noteq> ''starred''" and "githubNamespaceWhitelist \<noteq> []"
    and "getGithubRepositories useHTTPSClone client githubRepoType githubNamespaceWhitelist
           ignoreFork = (Inr repositories, sent, client')"
  shows "\<forall>r\<in>set repositories. \<exists>w\<in>set githubNamespaceWhitelist. Namespace r = w"
proof -
  from github_list_builds [OF assms(1,3)] obtain kept where
    b: "builds (githubItem useHTTPSClone githubNamespaceWhitelist ignoreFork) kept repositories"
    by blast
  have "\<forall>r\<in>set repositories. Namespace r \<in> set githubNamespaceWhitelist"
    by (rule builds_all_out [OF b]) (use assms(2) githubItem_Some in blast)
  then show ?thesis by auto
qed


theorem github_whitelist_unstarred_witness:
  "''all'' \<noteq> ''starred'' \<and> [''acme''] \<noteq> []
   \<and> fst (getGithubRepositories False ex_github ''all'' [''acme''] False)
       = Inr [\<lparr>CloneURL = ''git@h:api'', Name = ''api'', Namespace = ''acme'', Private = False\<rparr>,
              \<lparr>CloneURL = ''git@h:fork'', Name = ''fork'', Namespace = ''acme'', Private = False\<rparr>]
   \<and> list_all (\<lambda>r. \<exists>w\<in>set [''acme'']. Namespace r = w)
        [\<lparr>CloneURL = ''git@h:api'', Name = ''api'', Namespace = ''acme'', Private = False\<rparr>,
         \<lparr>CloneURL = ''git@h:fork'', Name = ''fork'', Namespace = ''acme'', Private = False\<rparr>]"
proof -
  let ?rs = "[\<lparr>CloneURL = ''git@h:api'', Name = ''api'', Namespace = ''acme'', Private = False\<rparr>,
              \<lparr>CloneURL = ''git@h:fork'', Name = ''fork'', Namespace = ''acme'', Private = False\<rparr>]"
  have t: "''all'' \<noteq> ''starred''" and w: "[''acme''] \<noteq> []" by simp_all
  have run: "fst (getGithubRepositories False ex_github ''all'' [''acme''] False) = Inr ?rs"
    by (simp add: ex_defs adapter_defs)
  then obtain sent client' where
    "getGithubRepositories False ex_github ''all'' [''acme''] False = (Inr ?rs, sent, client')"
    by (cases "getGithubRepositories False ex_github ''all'' [''acme''] False") auto
  from github_whitelist_unstarred [OF t w this]
  have "list_all (\<lambda>r. \<exists>w\<in>set [''acme'']. Namespace r = w) ?rs"
    unfolding list_all_iff .
  with t w run show ?thesis by blast
qed


text \<open>
  Claim C1 as stated fails for the starred selector: with the whitelist \<open>[''acme'']\<close> the
  starred listing of the example provider returns a repository of namespace \<open>other\<close>.
\<close>

theorem github_whitelist_starred_counterexample:
  "\<exists>r. fst (getGithubRepositories False ex_github ''starred'' [''acme''] True) = Inr [r]
       \<and> Namespace r = ''other'' \<and> \<not> contains [''acme''] (Namespace r)"
  by (simp add: ex_defs adapter_defs)

text \<open>
  Claim C2. Where the payload carries fork information (GitHub's \<^verbatim>\<open>Fork\<close> flag on
  both selectors, GitLab's \<^verbatim>\<open>ForkedFromProject\<close>), a listing with ignore-fork set
  returns repositories built, one by one and in payload order, from payload items none
  of which is marked as a fork.
\<close>

theorem ignore_fork_inline:
  "(githubRepoType \<noteq> ''starred''
      \<and> getGithubRepositories useHTTPSClone client githubRepoType wl True
          = (Inr repositories, sent, client')
    \<longrightarrow> (\<exists>kept. subseq kept (payload (Repositories_List_replies client))
           \<and> (\<forall>p\<in>set kept. gh_Fork p = Some False)
           \<and> builds (githubItem useHTTPSClone wl True) kept repositories))
 \<and> (getGithubRepositories useHTTPSClone client ''starred'' wl True
          = (Inr starred, sent_s, client_s)
    \<longrightarrow> (\<exists>kept. subseq kept (payload (Activity_ListStarred_replies client))
           \<and> (\<forall>p\<in>set kept. \<exists>repo. star_Repository p = Some repo \<and> gh_Fork repo = Some False)
           \<and> builds (githubStarredItem useHTTPSClone True) kept starred))
 \<and> (getGitlabRepositories useHTTPSClone gitlab visibility membership True
          = (Inr projects, sent_g, rest_g)
    \<longrightarrow> (\<exists>kept. subseq kept (payload gitlab)
           \<and> (\<forall>p\<in>set kept. gl_ForkedFromProject p = None)
           \<and> builds (gitlabItem useHTTPSClone True) kept projects))"
proof (intro conjI impI)
  assume a: "githubRepoType \<noteq> ''starred''
      \<and> getGithubRepositories useHTTPSClone client githubRepoType wl True
          = (Inr repositories, sent, client')"
  then obtain kept where
    k: "subseq kept (payload (Repositories_List_replies client))"
       "builds (githubItem useHTTPSClone wl True) kept repositories"
    using github_list_builds by blast
  have "\<forall>p\<in>set kept. gh_Fork p = Some False"
    by (rule builds_all [OF k(2)]) (use githubItem_Some in blast)
  with k show "\<exists>kept. subseq kept (payload (Repositories_List_replies client))
           \<and> (\<forall>p\<in>set kept. gh_Fork p = Some False)
           \<and> builds (githubItem useHTTPSClone wl True) kept repositories"
    by blast
next
  assume "getGithubRepositories useHTTPSClone client ''starred'' wl True
          = (Inr starred, sent_s, client_s)"
  then obtain kept where
    k: "subseq kept (payload (Activity_ListStarred_replies client))"
       "builds (githubStarredItem useHTTPSClone True) kept starred"
    using github_starred_builds by blast
  have "\<forall>p\<in>set kept. \<exists>repo. star_Repository p = Some repo \<and> gh_Fork repo = Some False"
    by (rule builds_all [OF k(2)]) (use githubStarredItem_Some in blast)
  with k show "\<exists>kept. subseq kept (payload (Activity_ListStarred_replies client))
           \<and> (\<forall>p\<in>set kept. \<exists>repo. star_Repository p = Some repo \<and> gh_Fork repo = Some False)
           \<and> builds (githubStarredItem useHTTPSClone True) kept starred"
    by blast
next
  assume "getGitlabRepositories useHTTPSClone gitlab visibility membership True
          = (Inr projects, sent_g, rest_g)"
  then obtain kept where
    k: "subseq kept (payload gitlab)" "builds (gitlabItem useHTTPSClone True) kept projects"
    using gitlab_builds by blast
  have "\<forall>p\<in>set kept. gl_ForkedFromProject p = None"
    by (rule builds_all [OF k(2)]) (use gitlabItem_Some in blast)
  with k show "\<exists>kept. subseq kept (payload gitlab)
           \<and> (\<forall>p\<in>set kept. gl_ForkedFromProject p = None)
           \<and> builds (gitlabItem useHTTPSClone True) kept projects"
    by blast
qed

theorem ignore_fork_inline_witness:
  "''all'' \<noteq> ''starred''
   \<and> fst (getGithubRepositories False ex_github ''all'' [] True)
       = Inr [\<lparr>CloneURL = ''git@h:api'', Name = ''api'', Namespace = ''acme'', Private = False\<rparr>,
              \<lparr>CloneURL = ''git@h:tool'', Name = ''tool'', Namespace = ''other'', Private = True\<rparr>]
   \<and> (\<exists>kept. subseq kept (payload (Repositories_List_replies ex_github))
         \<and> (\<forall>p\<in>set kept. gh_Fork p = Some False)
         \<and> builds (githubItem False [] True) kept
             [\<lparr>CloneURL = ''git@h:api'', Name = ''api'', Namespace = ''acme'', Private = False\<rparr>,
              \<lparr>CloneURL = ''git@h:tool'', Name = ''tool'', Namespace = ''other'', Private = True\<rparr>])
   \<and> fst (getGithubRepositories False ex_github ''starred'' [] True)
       = Inr [\<lparr>CloneURL = ''git@h:tool'', Name = ''tool'', Namespace = ''other'', Private = False\<rparr>]
   \<and> (\<exists>kept. subseq kept (payload (Activity_ListStarred_replies ex_github))
         \<and> (\<forall>p\<in>set kept. \<exists>repo. star_Repository p = Some repo \<and> gh_Fork repo = Some False)
         \<and> builds (githubStarredItem False True) kept
             [\<lparr>CloneURL = ''git@h:tool'', Name = ''tool'', Namespace = ''other'', Private = False\<rparr>])
   \<and> fst (getGitlabRepositories False ex_gitlab ''all'' ''all'' True)
       = Inr [\<lparr>CloneURL = ''git@h:site'', Name = ''site'', Namespace = ''acme'', Private = False\<rparr>,
              \<lparr>CloneURL = ''git@h:keys'', Name = ''keys'', Namespace = ''acme'', Private = True\<rparr>]
   \<and> (\<exists>kept. subseq kept (payload ex_gitlab)
         \<and> (\<forall>p\<in>set kept. gl_ForkedFromProject p = None)
         \<and> builds (gitlabItem False True) kept
             [\<lparr>CloneURL = ''git@h:site'', Name = ''site'', Namespace = ''acme'', Private = False\<rparr>,
              \<lparr>CloneURL = ''git@h:keys'', Name = ''keys'', Namespace = ''acme'', Private = True\<rparr>])"
proof -
  let ?R1 = "[\<lparr>CloneURL = ''git@h:api'', Name = ''api'', Namespace = ''acme'', Private = False\<rparr>,
              \<lparr>CloneURL = ''git@h:tool'', Name = ''tool'', Namespace = ''other'', Private = True\<rparr>]"
  let ?R2 = "[\<lparr>CloneURL = ''git@h:tool'', Name = ''tool'', Namespace = ''other'', Private = False\<rparr>]"
  let ?R3 = "[\<lparr>CloneURL = ''git@h:site'', Name = ''site'', Namespace = ''acme'', Private = False\<rparr>,
              \<lparr>CloneURL = ''git@h:keys'', Name = ''keys'', Namespace = ''acme'', Private = True\<rparr>]"
  have t: "''all'' \<noteq> ''starred''" by simp
  have f1: "fst (getGithubRepositories False ex_github ''all'' [] True) = Inr ?R1"
    by (simp add: ex_defs adapter_defs)
  have f2: "fst (getGithubRepositories False ex_github ''starred'' [] True) = Inr ?R2"
    by (simp add: ex_defs adapter_defs)
  have f3: "fst (getGitlabRepositories False ex_gitlab ''all'' ''all'' True) = Inr ?R3"
    by (simp add: ex_defs adapter_defs)
  from f1 obtain s1 c1 where
    r1: "getGithubRepositories False ex_github ''all'' [] True = (Inr ?R1, s1, c1)"
    by (cases "getGithubRepositories False ex_github ''all'' [] True") auto
  from f2 obtain s2 c2 where
    r2: "getGithubRepositories False ex_github ''starred'' [] True = (Inr ?R2, s2, c2)"
    by (cases "getGithubRepositories False ex_github ''starred'' [] True") auto
  from f3 obtain s3 c3 where
    r3: "getGitlabRepositories False ex_gitlab ''all'' ''all'' True = (Inr ?R3, s3, c3)"
    by (cases "getGitlabRepositories False ex_gitlab ''all'' ''all'' True") auto
  note T = ignore_fork_inline [where githubRepoType = "''all''" and useHTTPSClone = False
      and client = ex_github and wl = "[]" and repositories = ?R1 and sent = s1
      and client' = c1 and starred = ?R2 and sent_s = s2 and client_s = c2
      and gitlab = ex_gitlab and visibility = "''all''" and membership = "''all''"
      and projects = ?R3 and sent_g = s3 and rest_g = c3]
  from T t r1 have c1: "\<exists>kept. subseq kept (payload (Repositories_List_replies ex_github))
         \<and> (\<forall>p\<in>set kept. gh_Fork p = Some False)
         \<and> builds (githubItem False [] True) kept ?R1" by blast
  from T r2 have c2: "\<exists>kept. subseq kept (payload (Activity_ListStarred_replies ex_github))
         \<and> (\<forall>p\<in>set kept. \<exists>repo. star_Repository p = Some repo \<and> gh_Fork repo = Some False)
         \<and> builds (githubStarredItem False True) kept ?R2" by blast
  from T r3 have c3: "\<exists>kept. subseq kept (payload ex_gitlab)
         \<and> (\<forall>p\<in>set kept. gl_ForkedFromProject p = None)
         \<and> builds (gitlabItem False True) kept ?R3" by blast
  from t f1 c1 f2 c2 f3 c3 show ?thesis by blast
qed


text \<open>
  Claim C10. Every repository the GitLab listing returns is built from a payload
  project, and its private flag is true exactly when the project's visibility string
  is \<^verbatim>\<open>private\<close>; a project of visibility \<^verbatim>\<open>internal\<close> yields a repository that
  is not private and so survives dropping the private repositories.
\<close>

theorem gitlab_private_flag:
  "getGitlabRepositories useHTTPSClone client visibility membership ignoreFork
     = (Inr projects, sent, rest)
   \<longrightarrow> (\<exists>kept. subseq kept (payload client)
          \<and> list_all2 (\<lambda>p r. gitlabItem useHTTPSClone ignoreFork p = Inr (Some r)
                   \<and> (Private r \<longleftrightarrow> gl_Visibility p = ''private'')
                   \<and> (gl_Visibility p = ''internal''
                        \<longrightarrow> \<not> Private r \<and> r \<in> set (filter (\<lambda>r. \<not> Private r) projects)))
               kept projects)"
proof
  assume "getGitlabRepositories useHTTPSClone client visibility membership ignoreFork
     = (Inr projects, sent, rest)"
  then obtain kept where
    k: "subseq kept (payload client)"
       "builds (gitlabItem useHTTPSClone ignoreFork) kept projects"
    using gitlab_builds by blast
  from k(2) have len: "length kept = length projects"
    and nth: "\<And>i. i < length kept \<Longrightarrow>
                gitlabItem useHTTPSClone ignoreFork (kept ! i) = Inr (Some (projects ! i))"
    unfolding builds_def by (auto simp: list_all2_conv_all_nth)
  have "list_all2 (\<lambda>p r. gitlabItem useHTTPSClone ignoreFork p = Inr (Some r)
                   \<and> (Private r \<longleftrightarrow> gl_Visibility p = ''private'')
                   \<and> (gl_Visibility p = ''internal''
                        \<longrightarrow> \<not> Private r \<and> r \<in> set (filter (\<lambda>r. \<not> Private r) projects)))
               kept projects"
    unfolding list_all2_conv_all_nth
  proof (intro conjI allI impI)
    show "length kept = length projects" by (rule len)
  next
    fix i assume "i < length kept"
    then show "gitlabItem useHTTPSClone ignoreFork (kept ! i) = Inr (Some (projects ! i))"
      by (rule nth)
  next
    fix i assume "i < length kept"
    from gitlabItem_Some [OF nth [OF this]]
    show "Private (projects ! i) \<longleftrightarrow> gl_Visibility (kept ! i) = ''private''" by simp
  next
    fix i assume i: "i < length kept" and int: "gl_Visibility (kept ! i) = ''internal''"
    from gitlabItem_Some [OF nth [OF i]] int
    show "\<not> Private (projects ! i)" by simp
  next
    fix i assume i: "i < length kept" and int: "gl_Visibility (kept ! i) = ''internal''"
    from gitlabItem_Some [OF nth [OF i]] int have "\<not> Private (projects ! i)" by simp
    moreover from i len have "projects ! i \<in> set projects" by simp
    ultimately show "projects ! i \<in> set (filter (\<lambda>r. \<not> Private r) projects)" by simp
  qed
  with k(1) show "\<exists>kept. subseq kept (payload client)
          \<and> list_all2 (\<lambda>p r. gitlabItem useHTTPSClone ignoreFork p = Inr (Some r)
                   \<and> (Private r \<longleftrightarrow> gl_Visibility p = ''private'')
                   \<and> (gl_Visibility p = ''internal''
                        \<longrightarrow> \<not> Private r \<and> r \<in> set (filter (\<lambda>r. \<not> Private r) projects)))
               kept projects"
    by blast
qed


theorem gitlab_private_flag_witness:
  "fst (getGitlabRepositories False ex_gitlab ''all'' ''all'' False)
     = Inr [\<lparr>CloneURL = ''git@h:site'', Name = ''site'', Namespace = ''acme'', Private = False\<rparr>,
            \<lparr>CloneURL = ''git@h:copy'', Name = ''copy'', Namespace = ''acme'', Private = False\<rparr>,
            \<lparr>CloneURL = ''git@h:keys'', Name = ''keys'', Namespace = ''acme'', Private = True\<rparr>]
   \<and> (\<exists>kept. subseq kept (payload ex_gitlab)
          \<and> list_all2 (\<lambda>p r. gitlabItem False False p = Inr (Some r)
                   \<and> (Private r \<longleftrightarrow> gl_Visibility p = ''private'')
                   \<and> (gl_Visibility p = ''internal''
                        \<longrightarrow> \<not> Private r \<and> r \<in> set (filter (\<lambda>r. \<not> Private r)
            [\<lparr>CloneURL = ''git@h:site'', Name = ''site'', Namespace = ''acme'', Private = False\<rparr>,
             \<lparr>CloneURL = ''git@h:copy'', Name = ''copy'', Namespace = ''acme'', Private = False\<rparr>,
             \<lparr>CloneURL = ''git@h:keys'', Name = ''keys'', Namespace = ''acme'', Private = True\<rparr>])))
               kept
            [\<lparr>CloneURL = ''git@h:site'', Name = ''site'', Namespace = ''acme'', Private = False\<rparr>,
             \<lparr>CloneURL = ''git@h:copy'', Name = ''copy'', Namespace = ''acme'', Private = False\<rparr>,
             \<lparr>CloneURL = ''git@h:keys'', Name = ''keys'', Namespace = ''acme'', Private = True\<rparr>])"
proof -
  let ?R = "[\<lparr>CloneURL = ''git@h:site'', Name = ''site'', Namespace = ''acme'', Private = False\<rparr>,
             \<lparr>CloneURL = ''git@h:copy'', Name = ''copy'', Namespace = ''acme'', Private = False\<rparr>,
             \<lparr>CloneURL = ''git@h:keys'', Name = ''keys'', Namespace = ''acme'', Private = True\<rparr>]"
  have f: "fst (getGitlabRepositories False ex_gitlab ''all'' ''all'' False) = Inr ?R"
    by (simp add: ex_defs adapter_defs)
  then obtain s c where
    r: "getGitlabRepositories False ex_gitlab ''all'' ''all'' False = (Inr ?R, s, c)"
    by (cases "getGitlabRepositories False ex_gitlab ''all'' ''all'' False") auto
  from gitlab_private_flag [where useHTTPSClone = False and client = ex_gitlab
      and visibility = "''all''" and membership = "''all''" and ignoreFork = False
      and projects = ?R and sent = s and rest = c] r f
  show ?thesis by blast
qed

section \<open>Errors of listing calls\<close>

lemma github_list_error:
  assumes "t \<noteq> ''starred''"
    and "Repositories_List_replies client = pre @ Inl err # rest"
    and "list_all (turnsPage (githubItem u wl ig)) pre"
  shows "getGithubRepositories u client t wl ig =
         (Inl (ReturnErr err), map (Repositories_List t) (0 # map nextOf pre),
          client\<lparr>Repositories_List_replies := rest\<rparr>)"
  by (simp add: getGithubRepositories_def assms(1,2) listPages_error [OF assms(3)])

lemma github_starred_error:
  assumes "Activity_ListStarred_replies client = pre @ Inl err # rest"
    and "list_all (turnsPage (githubStarredItem u ig)) pre"
  shows "getGithubRepositories u client ''starred'' wl ig =
         (Inl (ReturnErr err), map Activity_ListStarred (0 # map nextOf pre),
          client\<lparr>Activity_ListStarred_replies := rest\<rparr>)"
  by (simp add: getGithubRepositories_def getGithubStarredRepositories_def assms(1)
        listPages_error [OF assms(2)])

lemma gitlab_error:
  assumes "list_all (turnsPage (gitlabItem u ig)) pre"
  shows "\<exists>sent. getGitlabRepositories u (pre @ Inl err # rest) v m ig =
         (Inl (ReturnErr err), sent, rest) \<and> map Page sent = 0 # map nextOf pre"
  by (simp add: getGitlabRepositories_def listPages_error [OF assms] comp_def)

lemma forgejo_user_error:
  assumes "t = ''user'' \<or> t = []"
    and "ListMyRepos_replies client = pre @ Inl err # rest"
    and "list_all (turnsPage (forgejoItem u)) pre"
  shows "getForgejoRepositories u client t =
         (Inl (ReturnErr (Errorf (''fetching user repositories from forgejo: ''
                                   @ errorString err))),
          map ListMyRepos (1 # map nextOf pre),
          client\<lparr>ListMyRepos_replies := rest\<rparr>)"
  using assms(1)
  by (auto simp: getForgejoRepositories_def paginateForgejoRepositories_def assms(2)
        listPages_error [OF assms(3)])

lemma forgejo_starred_error:
  assumes "GetMyUserInfo_reply client = Inr user"
    and "SearchRepos_replies client = pre @ Inl err # rest"
    and "list_all (turnsPage (forgejoItem u)) pre"
  shows "getForgejoRepositories u client ''starred'' =
         (Inl (ReturnErr (Errorf (''fetching starred repositories from forgejo: ''
                                   @ errorString err))),
          GetMyUserInfo # map (\<lambda>page. SearchRepos page (fj_ID user)) (1 # map nextOf pre),
          client\<lparr>SearchRepos_replies := rest\<rparr>)"
  by (simp add: getForgejoRepositories_def paginateForgejoRepositories_def assms(1,2)
        listPages_error [OF assms(3)])

lemma bitbucketWorkspaces_error:
  assumes "list_all (accountListed u lfa) pre" and "lfa slug = Inl err"
  shows "fst (bitbucketWorkspaces u lfa (pre @ slug # rest) acc sent) = Inl (ReturnErr err)
       \<and> snd (bitbucketWorkspaces u lfa (pre @ slug # rest) acc sent)
           = sent @ map Repositories_ListForAccount (pre @ [slug])"
  using assms
proof (induction pre arbitrary: acc sent)
  case Nil
  then show ?case by simp
next
  case (Cons s pre)
  from Cons.prems(1) obtain items where
    i: "lfa s = Inr items" "list_all (noPanic (bitbucketItem u)) items"
    by (auto simp: accountListed_def split: sum.splits)
  from Cons.prems(1) have pre: "list_all (accountListed u lfa) pre" by simp
  show ?case
    using i rangeAppend_appended [OF i(2), of acc] Cons.IH [OF pre Cons.prems(2)]
    by simp
qed

lemma bitbucket_error:
  "(Workspaces_List_reply client = Inl err
     \<longrightarrow> getBitbucketRepositories u client = (Inl (ReturnErr err), [Workspaces_List]))
 \<and> (Workspaces_List_reply client = Inr (pre @ slug # rest)
      \<and> list_all (accountListed u (Repositories_ListForAccount_reply client)) pre
      \<and> Repositories_ListForAccount_reply client slug = Inl err
     \<longrightarrow> getBitbucketRepositories u client
           = (Inl (ReturnErr err),
              Workspaces_List # map Repositories_ListForAccount (pre @ [slug])))"
proof (intro conjI impI)
  assume "Workspaces_List_reply client = Inl err"
  then show "getBitbucketRepositories u client = (Inl (ReturnErr err), [Workspaces_List])"
    by (simp add: getBitbucketRepositories_def)
next
  assume a: "Workspaces_List_reply client = Inr (pre @ slug # rest)
      \<and> list_all (accountListed u (Repositories_ListForAccount_reply client)) pre
      \<and> Repositories_ListForAccount_reply client slug = Inl err"
  then have "fst (bitbucketWorkspaces u (Repositories_ListForAccount_reply client)
                    (pre @ slug # rest) [] [Workspaces_List]) = Inl (ReturnErr err)"
    and "snd (bitbucketWorkspaces u (Repositories_ListForAccount_reply client)
                    (pre @ slug # rest) [] [Workspaces_List])
         = [Workspaces_List] @ map Repositories_ListForAccount (pre @ [slug])"
    using bitbucketWorkspaces_error by blast+
  then have "bitbucketWorkspaces u (Repositories_ListForAccount_reply client)
                    (pre @ slug # rest) [] [Workspaces_List]
             = (Inl (ReturnErr err),
                Workspaces_List # map Repositories_ListForAccount (pre @ [slug]))"
    by (simp add: prod_eq_iff)
  with a show "getBitbucketRepositories u client
           = (Inl (ReturnErr err),
              Workspaces_List # map Repositories_ListForAccount (pre @ [slug]))"
    by (simp add: getBitbucketRepositories_def)
qed

lemmas ex_down_defs = ex_github_down_def ex_gitlab_down_def ex_forgejo_down_def
  ex_forgejo_unauthorized_def ex_bitbucket_repo_def ex_bitbucket_down_def
  ex_bitbucket_unreachable_def


text \<open>
  Claim C3, as amended. For every adapter and every selector, when a listing call
  returns an error (every earlier reply having made the loop ask for another page),
  the listing makes no further call and returns nil repositories together with an
  error: that very error for GitHub (both selectors), GitLab and Bitbucket (the
  workspace listing and the listing of a workspace), and for Forgejo a new error whose
  message is \<^verbatim>\<open>fetching user repositories from forgejo: \<close> or
  \<^verbatim>\<open>fetching starred repositories from forgejo: \<close> followed by that error's
  message. The requests sent are exactly those up to the failing call.
\<close>

theorem listing_error_aborts:
  "(t \<noteq> ''starred'' \<and> Repositories_List_replies github = pre1 @ Inl err # rest1
      \<and> list_all (turnsPage (githubItem u wl ig)) pre1
    \<longrightarrow> getGithubRepositories u github t wl ig
          = (Inl (ReturnErr err), map (Repositories_List t) (0 # map nextOf pre1),
             github\<lparr>Repositories_List_replies := rest1\<rparr>))
 \<and> (Activity_ListStarred_replies github = pre2 @ Inl err # rest2
      \<and> list_all (turnsPage (githubStarredItem u ig)) pre2
    \<longrightarrow> getGithubRepositories u github ''starred'' wl ig
          = (Inl (ReturnErr err), map Activity_ListStarred (0 # map nextOf pre2),
             github\<lparr>Activity_ListStarred_replies := rest2\<rparr>))
 \<and> (list_all (turnsPage (gitlabItem u ig)) pre3
    \<longrightarrow> (\<exists>sent. getGitlabRepositories u (pre3 @ Inl err # rest3) v m ig
                 = (Inl (ReturnErr err), sent, rest3)
              \<and> map Page sent = 0 # map nextOf pre3))
 \<and> ((ft = ''user'' \<or> ft = []) \<and> ListMyRepos_replies forgejo = pre4 @ Inl err # rest4
      \<and> list_all (turnsPage (forgejoItem u)) pre4
    \<longrightarrow> getForgejoRepositories u forgejo ft
          = (Inl (ReturnErr (Errorf (''fetching user repositories from forgejo: ''
                                      @ errorString err))),
             map ListMyRepos (1 # map nextOf pre4),
             forgejo\<lparr>ListMyRepos_replies := rest4\<rparr>))
 \<and> (GetMyUserInfo_reply forgejo = Inr user
      \<and> SearchRepos_replies forgejo = pre5 @ Inl err # rest5
      \<and> list_all (turnsPage (forgejoItem u)) pre5
    \<longrightarrow> getForgejoRepositories u forgejo ''starred''
          = (Inl (ReturnErr (Errorf (''fetching starred repositories from forgejo: ''
                                      @ errorString err))),
             GetMyUserInfo # map (\<lambda>page. SearchRepos page (fj_ID user)) (1 # map nextOf pre5),
             forgejo\<lparr>SearchRepos_replies := rest5\<rparr>))
 \<and> (Workspaces_List_reply bitbucket = Inl err
    \<longrightarrow> getBitbucketRepositories u bitbucket = (Inl (ReturnErr err), [Workspaces_List]))
 \<and> (Workspaces_List_reply bitbucket = Inr (pre6 @ slug # rest6)
      \<and> list_all (accountListed u (Repositories_ListForAccount_reply bitbucket)) pre6
      \<and> Repositories_ListForAccount_reply bitbucket slug = Inl err
    \<longrightarrow> getBitbucketRepositories u bitbucket
          = (Inl (ReturnErr err),
             Workspaces_List # map Repositories_ListForAccount (pre6 @ [slug])))"
  using github_list_error [of t github pre1 err rest1 u wl ig]
    github_starred_error [of github pre2 err rest2 u ig wl]
    gitlab_error [of u ig pre3 err rest3 v m]
    forgejo_user_error [of ft forgejo pre4 err rest4 u]
    forgejo_starred_error [of forgejo user pre5 err rest5 u]
    bitbucket_error [of bitbucket err u pre6 slug rest6]
  by blast

theorem listing_error_aborts_witness:
  "getGithubRepositories False ex_github_down ''all'' [] False
     = (Inl (ReturnErr (ClientError ''boom'')),
        [Repositories_List ''all'' 0, Repositories_List ''all'' 2],
        ex_github_down\<lparr>Repositories_List_replies :=
          [Inr ([ex_repo ''other'' ''tool'' False True], Some 0)]\<rparr>)
   \<and> getGithubRepositories False ex_github_down ''starred'' [] False
     = (Inl (ReturnErr (ClientError ''boom'')), [Activity_ListStarred 0],
        ex_github_down\<lparr>Activity_ListStarred_replies := []\<rparr>)
   \<and> (\<exists>sent. getGitlabRepositories False ex_gitlab_down ''all'' ''all'' False
              = (Inl (ReturnErr (ClientError ''boom'')), sent, [])
           \<and> map Page sent = [0, 2])
   \<and> getForgejoRepositories False ex_forgejo_down ''user''
     = (Inl (ReturnErr (Errorf ''fetching user repositories from forgejo: boom'')),
        [ListMyRepos 1], ex_forgejo_down\<lparr>ListMyRepos_replies := []\<rparr>)
   \<and> getForgejoRepositories False ex_forgejo_down ''starred''
     = (Inl (ReturnErr (Errorf ''fetching starred repositories from forgejo: boom'')),
        [GetMyUserInfo, SearchRepos 1 7, SearchRepos 2 7],
        ex_forgejo_down\<lparr>SearchRepos_replies := []\<rparr>)
   \<and> getBitbucketRepositories False ex_bitbucket_unreachable
     = (Inl (ReturnErr (ClientError ''boom'')), [Workspaces_List])
   \<and> getBitbucketRepositories False ex_bitbucket_down
     = (Inl (ReturnErr (ClientError ''boom'')),
        [Workspaces_List, Repositories_ListForAccount ''acme'',
         Repositories_ListForAccount ''labs''])"
proof -
  let ?e = "ClientError ''boom''"
  let ?p1 = "[Inr ([ex_repo ''acme'' ''api'' False False], Some 2)]
               :: github_Repository reply list"
  let ?r1 = "[Inr ([ex_repo ''other'' ''tool'' False True], Some 0)]
               :: github_Repository reply list"
  let ?p3 = "[Inr ([ex_project ''acme'' ''site'' None ''internal''], Some 2)]
               :: gitlab_Project reply list"
  let ?p5 = "[Inr ([ex_forgejo_repo ''bob'' ''lib'' False], Some 2)]
               :: forgejo_Repository reply list"
  let ?user = "\<lparr>fj_UserName = ''alice'', fj_ID = 7\<rparr>"
  have h1: "''all'' \<noteq> ''starred''
      \<and> Repositories_List_replies ex_github_down = ?p1 @ Inl ?e # ?r1
      \<and> list_all (turnsPage (githubItem False [] False)) ?p1"
    by (simp add: ex_down_defs ex_defs adapter_defs)
  have h2: "Activity_ListStarred_replies ex_github_down = [] @ Inl ?e # []
      \<and> list_all (turnsPage (githubStarredItem False False)) []"
    by (simp add: ex_down_defs)
  have h3: "list_all (turnsPage (gitlabItem False False)) ?p3"
    by (simp add: ex_defs adapter_defs)
  have g3: "ex_gitlab_down = ?p3 @ Inl ?e # []"
    by (simp add: ex_down_defs)
  have h4: "(''user'' = ''user'' \<or> ''user'' = [])
      \<and> ListMyRepos_replies ex_forgejo_down = [] @ Inl ?e # []
      \<and> list_all (turnsPage (forgejoItem False)) []"
    by (simp add: ex_down_defs)
  have h5: "GetMyUserInfo_reply ex_forgejo_down = Inr ?user
      \<and> SearchRepos_replies ex_forgejo_down = ?p5 @ Inl ?e # []
      \<and> list_all (turnsPage (forgejoItem False)) ?p5"
    by (simp add: ex_down_defs ex_defs adapter_defs)
  have h6: "Workspaces_List_reply ex_bitbucket_unreachable = Inl ?e"
    by (simp add: ex_down_defs)
  have h7: "Workspaces_List_reply ex_bitbucket_down = Inr ([''acme''] @ ''labs'' # [''misc''])
      \<and> list_all (accountListed False (Repositories_ListForAccount_reply ex_bitbucket_down))
           [''acme'']
      \<and> Repositories_ListForAccount_reply ex_bitbucket_down ''labs'' = Inl ?e"
    by (simp add: ex_down_defs accountListed_def bitbucketItem_def
          extractBitbucketCloneURLs_def getCloneURL_def)
  note T = listing_error_aborts [where t = "''all''" and github = ex_github_down
      and ?pre1.0 = ?p1 and err = ?e and ?rest1.0 = ?r1 and u = False and wl = "[]"
      and ig = False and ?pre2.0 = "[]" and ?rest2.0 = "[]" and ?pre3.0 = ?p3
      and ?rest3.0 = "[]" and v = "''all''" and m = "''all''" and ft = "''user''"
      and forgejo = ex_forgejo_down and ?pre4.0 = "[]" and ?rest4.0 = "[]"
      and user = ?user and ?pre5.0 = ?p5 and ?rest5.0 = "[]"
      and bitbucket = ex_bitbucket_down and ?pre6.0 = "[''acme'']" and slug = "''labs''"
      and ?rest6.0 = "[''misc'']"]
  note U = listing_error_aborts [where err = ?e and u = False
      and bitbucket = ex_bitbucket_unreachable]
  have c1: "getGithubRepositories False ex_github_down ''all'' [] False
     = (Inl (ReturnErr ?e), map (Repositories_List ''all'') (0 # map nextOf ?p1),
        ex_github_down\<lparr>Repositories_List_replies := ?r1\<rparr>)"
    by (rule mp [OF T [THEN conjunct1] h1])
  have c2: "getGithubRepositories False ex_github_down ''starred'' [] False
     = (Inl (ReturnErr ?e),
        map Activity_ListStarred (0 # map nextOf ([] :: github_StarredRepository reply list)),
        ex_github_down\<lparr>Activity_ListStarred_replies := []\<rparr>)"
    by (rule mp [OF T [THEN conjunct2, THEN conjunct1] h2])
  have c3: "\<exists>sent. getGitlabRepositories False (?p3 @ Inl ?e # []) ''all'' ''all'' False
              = (Inl (ReturnErr ?e), sent, [])
           \<and> map Page sent = 0 # map nextOf ?p3"
    by (rule mp [OF T [THEN conjunct2, THEN conjunct2, THEN conjunct1] h3])
  have c4: "getForgejoRepositories False ex_forgejo_down ''user''
     = (Inl (ReturnErr (Errorf (''fetching user repositories from forgejo: ''
                                 @ errorString ?e))),
        map ListMyRepos (1 # map nextOf ([] :: forgejo_Repository reply list)),
        ex_forgejo_down\<lparr>ListMyRepos_replies := []\<rparr>)"
    by (rule mp [OF T [THEN conjunct2, THEN conjunct2, THEN conjunct2, THEN conjunct1] h4])
  have c5: "getForgejoRepositories False ex_forgejo_down ''starred''
     = (Inl (ReturnErr (Errorf (''fetching starred repositories from forgejo: ''
                                 @ errorString ?e))),
        GetMyUserInfo # map (\<lambda>page. SearchRepos page (fj_ID ?user)) (1 # map nextOf ?p5),
        ex_forgejo_down\<lparr>SearchRepos_replies := []\<rparr>)"
    by (rule mp [OF T [THEN conjunct2, THEN conjunct2, THEN conjunct2, THEN conjunct2, THEN conjunct1] h5])
  have c6: "getBitbucketRepositories False ex_bitbucket_unreachable
     = (Inl (ReturnErr ?e), [Workspaces_List])"
    by (rule mp [OF U [THEN conjunct2, THEN conjunct2, THEN conjunct2, THEN conjunct2, THEN conjunct2, THEN conjunct1] h6])
  have c7: "getBitbucketRepositories False ex_bitbucket_down
     = (Inl (ReturnErr ?e),
        Workspaces_List # map Repositories_ListForAccount ([''acme''] @ [''labs'']))"
    by (rule mp [OF T [THEN conjunct2, THEN conjunct2, THEN conjunct2, THEN conjunct2, THEN conjunct2, THEN conjunct2] h7])
  show ?thesis
    using c1 c2 c3 c4 c5 c6 c7 unfolding g3 [symmetric] by simp
qed


text \<open>
  Claim C3 as stated fails on Forgejo: the error of a failing listing call is not the
  error returned (it is replaced by a formatted one), and with the starred selector an
  error of the user lookup that precedes the listing ends the process in
  \<^verbatim>\<open>log.Fatalf\<close> instead of being returned.
\<close>

theorem listing_error_counterexample:
  "fst (getForgejoRepositories False ex_forgejo_down ''user'')
     = Inl (ReturnErr (Errorf ''fetching user repositories from forgejo: boom''))
   \<and> ListMyRepos_replies ex_forgejo_down = [Inl (ClientError ''boom'')]
   \<and> fst (getForgejoRepositories False ex_forgejo_down ''user'')
     \<noteq> Inl (ReturnErr (ClientError ''boom''))
   \<and> GetMyUserInfo_reply ex_forgejo_unauthorized = Inl (ClientError ''unauthorized'')
   \<and> fst (getForgejoRepositories False ex_forgejo_unauthorized ''starred'')
     = Inl (LogFatal ''Error fetching user info from forgejo: unauthorized'')"
  by (simp add: ex_down_defs getForgejoRepositories_def paginateForgejoRepositories_def)

section \<open>Pagination\<close>

lemma github_list_pages:
  assumes "t \<noteq> ''starred''" and "list_all (turnsPage (githubItem u wl ig)) pre"
    and "list_all (noPanic (githubItem u wl ig)) repos"
  shows "getGithubRepositories u
           (github\<lparr>Repositories_List_replies := pre @ Inr (repos, Some 0) # rest\<rparr>) t wl ig
         = (Inr (appended (githubItem u wl ig) (payload (pre @ [Inr (repos, Some 0)]))),
            map (Repositories_List t) (0 # map nextOf pre),
            github\<lparr>Repositories_List_replies := rest\<rparr>)
       \<and> fst (getGithubRepositories u (github\<lparr>Repositories_List_replies := pre\<rparr>) t wl ig)
         = Inl NoReply"
  by (simp add: getGithubRepositories_def assms(1) listPages_sentinel [OF assms(2,3)]
        listPages_no_sentinel [OF assms(2)])

lemma github_starred_pages:
  assumes "list_all (turnsPage (githubStarredItem u ig)) pre"
    and "list_all (noPanic (githubStarredItem u ig)) stars"
  shows "getGithubRepositories u
           (github\<lparr>Activity_ListStarred_replies := pre @ Inr (stars, Some 0) # rest\<rparr>)
           ''starred'' wl ig
         = (Inr (appended (githubStarredItem u ig) (payload (pre @ [Inr (stars, Some 0)]))),
            map Activity_ListStarred (0 # map nextOf pre),
            github\<lparr>Activity_ListStarred_replies := rest\<rparr>)
       \<and> fst (getGithubRepositories u (github\<lparr>Activity_ListStarred_replies := pre\<rparr>)
                ''starred'' wl ig)
         = Inl NoReply"
  by (simp add: getGithubRepositories_def getGithubStarredRepositories_def
        listPages_sentinel [OF assms(1,2)] listPages_no_sentinel [OF assms(1)])

lemma gitlab_pages:
  assumes "list_all (turnsPage (gitlabItem u ig)) pre"
    and "list_all (noPanic (gitlabItem u ig)) projects"
  shows "(\<exists>sent. getGitlabRepositories u (pre @ Inr (projects, Some 0) # rest) v m ig
            = (Inr (appended (gitlabItem u ig) (payload (pre @ [Inr (projects, Some 0)]))),
               sent, rest)
          \<and> map Page sent = 0 # map nextOf pre)
       \<and> fst (getGitlabRepositories u pre v m ig) = Inl NoReply"
  by (simp add: getGitlabRepositories_def listPages_sentinel [OF assms(1,2)]
        listPages_no_sentinel [OF assms(1)] comp_def)

lemma forgejo_user_pages:
  assumes "ft = ''user'' \<or> ft = []" and "resp = Some 0 \<or> resp = None"
    and "list_all (turnsPage (forgejoItem u)) pre"
    and "list_all (noPanic (forgejoItem u)) repos"
  shows "getForgejoRepositories u
           (forgejo\<lparr>ListMyRepos_replies := pre @ Inr (repos, resp) # rest\<rparr>) ft
         = (Inr (appended (forgejoItem u) (payload (pre @ [Inr (repos, resp)]))),
            map ListMyRepos (1 # map nextOf pre),
            forgejo\<lparr>ListMyRepos_replies := rest\<rparr>)
       \<and> fst (getForgejoRepositories u (forgejo\<lparr>ListMyRepos_replies := pre\<rparr>) ft)
         = Inl NoReply"
proof -
  from assms(2) have "resp = Some 0 \<or> (True \<and> resp = None)" by simp
  note s = listPages_sentinel [OF assms(3,4) this]
  from assms(1) show ?thesis
    by (auto simp: getForgejoRepositories_def paginateForgejoRepositories_def s
          listPages_no_sentinel [OF assms(3)])
qed

lemma forgejo_starred_pages:
  assumes "GetMyUserInfo_reply forgejo = Inr user" and "resp = Some 0 \<or> resp = None"
    and "list_all (turnsPage (forgejoItem u)) pre"
    and "list_all (noPanic (forgejoItem u)) repos"
  shows "getForgejoRepositories u
           (forgejo\<lparr>SearchRepos_replies := pre @ Inr (repos, resp) # rest\<rparr>) ''starred''
         = (Inr (appended (forgejoItem u) (payload (pre @ [Inr (repos, resp)]))),
            GetMyUserInfo # map (\<lambda>page. SearchRepos page (fj_ID user)) (1 # map nextOf pre),
            forgejo\<lparr>SearchRepos_replies := rest\<rparr>)
       \<and> fst (getForgejoRepositories u (forgejo\<lparr>SearchRepos_replies := pre\<rparr>) ''starred'')
         = Inl NoReply"
proof -
  from assms(2) have "resp = Some 0 \<or> (True \<and> resp = None)" by simp
  note s = listPages_sentinel [OF assms(3,4) this]
  show ?thesis
    by (simp add: getForgejoRepositories_def paginateForgejoRepositories_def s assms(1)
          listPages_no_sentinel [OF assms(3)])
qed


text \<open>
  Claim C4. In each of the four pagination loops (GitHub, GitHub starred, GitLab,
  Forgejo with either selector), for a script of pages whose earlier replies all carry
  a non-zero next page and whose last reply carries next page 0 (for Forgejo also: no
  response), the listing returns the repositories built from exactly those pages, the
  replies after them are left unread, and the page numbers requested are the initial
  cursor (0, for Forgejo 1) followed by the next-page values of the replies before the
  last. Without that last reply the listing does not return: it has asked for a
  further page. (The Bitbucket adapter has no pagination loop.)
\<close>

theorem pagination_stops_at_sentinel:
  "(t \<noteq> ''starred'' \<and> list_all (turnsPage (githubItem u wl ig)) pre1
      \<and> list_all (noPanic (githubItem u wl ig)) repos
    \<longrightarrow> getGithubRepositories u
           (github\<lparr>Repositories_List_replies := pre1 @ Inr (repos, Some 0) # rest1\<rparr>) t wl ig
         = (Inr (appended (githubItem u wl ig) (payload (pre1 @ [Inr (repos, Some 0)]))),
            map (Repositories_List t) (0 # map nextOf pre1),
            github\<lparr>Repositories_List_replies := rest1\<rparr>)
       \<and> fst (getGithubRepositories u (github\<lparr>Repositories_List_replies := pre1\<rparr>) t wl ig)
         = Inl NoReply)
 \<and> (list_all (turnsPage (githubStarredItem u ig)) pre2
      \<and> list_all (noPanic (githubStarredItem u ig)) stars
    \<longrightarrow> getGithubRepositories u
           (github\<lparr>Activity_ListStarred_replies := pre2 @ Inr (stars, Some 0) # rest2\<rparr>)
           ''starred'' wl ig
         = (Inr (appended (githubStarredItem u ig) (payload (pre2 @ [Inr (stars, Some 0)]))),
            map Activity_ListStarred (0 # map nextOf pre2),
            github\<lparr>Activity_ListStarred_replies := rest2\<rparr>)
       \<and> fst (getGithubRepositories u (github\<lparr>Activity_ListStarred_replies := pre2\<rparr>)
                ''starred'' wl ig)
         = Inl NoReply)
 \<and> (list_all (turnsPage (gitlabItem u ig)) pre3
      \<and> list_all (noPanic (gitlabItem u ig)) projects
    \<longrightarrow> (\<exists>sent. getGitlabRepositories u (pre3 @ Inr (projects, Some 0) # rest3) v m ig
            = (Inr (appended (gitlabItem u ig) (payload (pre3 @ [Inr (projects, Some 0)]))),
               sent, rest3)
          \<and> map Page sent = 0 # map nextOf pre3)
       \<and> fst (getGitlabRepositories u pre3 v m ig) = Inl NoReply)
 \<and> ((ft = ''user'' \<or> ft = []) \<and> (resp4 = Some 0 \<or> resp4 = None)
      \<and> list_all (turnsPage (forgejoItem u)) pre4
      \<and> list_all (noPanic (forgejoItem u)) mine
    \<longrightarrow> getForgejoRepositories u
           (forgejo\<lparr>ListMyRepos_replies := pre4 @ Inr (mine, resp4) # rest4\<rparr>) ft
         = (Inr (appended (forgejoItem u) (payload (pre4 @ [Inr (mine, resp4)]))),
            map ListMyRepos (1 # map nextOf pre4),
            forgejo\<lparr>ListMyRepos_replies := rest4\<rparr>)
       \<and> fst (getForgejoRepositories u (forgejo\<lparr>ListMyRepos_replies := pre4\<rparr>) ft)
         = Inl NoReply)
 \<and> (GetMyUserInfo_reply forgejo = Inr user \<and> (resp5 = Some 0 \<or> resp5 = None)
      \<and> list_all (turnsPage (forgejoItem u)) pre5
      \<and> list_all (noPanic (forgejoItem u)) found
    \<longrightarrow> getForgejoRepositories u
           (forgejo\<lparr>SearchRepos_replies := pre5 @ Inr (found, resp5) # rest5\<rparr>) ''starred''
         = (Inr (appended (forgejoItem u) (payload (pre5 @ [Inr (found, resp5)]))),
            GetMyUserInfo # map (\<lambda>page. SearchRepos page (fj_ID user)) (1 # map nextOf pre5),
            forgejo\<lparr>SearchRepos_replies := rest5\<rparr>)
       \<and> fst (getForgejoRepositories u (forgejo\<lparr>SearchRepos_replies := pre5\<rparr>) ''starred'')
         = Inl NoReply)"
  using github_list_pages [where t = t and u = u and wl = wl and ig = ig and pre = pre1
      and repos = repos and github = github and rest = rest1]
    github_starred_pages [where u = u and ig = ig and pre = pre2 and stars = stars
      and github = github and rest = rest2 and wl = wl]
    gitlab_pages [where u = u and ig = ig and pre = pre3 and projects = projects
      and rest = rest3 and v = v and m = m]
    forgejo_user_pages [where ft = ft and resp = resp4 and u = u and pre = pre4
      and repos = mine and forgejo = forgejo and rest = rest4]
    forgejo_starred_pages [where forgejo = forgejo and user = user and resp = resp5
      and u = u and pre = pre5 and repos = found and rest = rest5]
  by blast

theorem pagination_stops_at_sentinel_witness:
  "getGithubRepositories False ex_github ''all'' [] False
     = (Inr [\<lparr>CloneURL = ''git@h:api'', Name = ''api'', Namespace = ''acme'', Private = False\<rparr>,
             \<lparr>CloneURL = ''git@h:fork'', Name = ''fork'', Namespace = ''acme'', Private = False\<rparr>,
             \<lparr>CloneURL = ''git@h:tool'', Name = ''tool'', Namespace = ''other'', Private = True\<rparr>],
        [Repositories_List ''all'' 0, Repositories_List ''all'' 2],
        ex_github\<lparr>Repositories_List_replies := []\<rparr>)
   \<and> fst (getGithubRepositories False
            (ex_github\<lparr>Repositories_List_replies := take 1 (Repositories_List_replies ex_github)\<rparr>)
            ''all'' [] False) = Inl NoReply
   \<and> getGithubRepositories False ex_github ''starred'' [] False
     = (Inr [\<lparr>CloneURL = ''git@h:tool'', Name = ''tool'', Namespace = ''other'', Private = False\<rparr>,
             \<lparr>CloneURL = ''git@h:fork'', Name = ''fork'', Namespace = ''acme'', Private = False\<rparr>],
        [Activity_ListStarred 0, Activity_ListStarred 5],
        ex_github\<lparr>Activity_ListStarred_replies := []\<rparr>)
   \<and> fst (getGithubRepositories False
            (ex_github\<lparr>Activity_ListStarred_replies :=
               take 1 (Activity_ListStarred_replies ex_github)\<rparr>)
            ''starred'' [] False) = Inl NoReply
   \<and> (\<exists>sent. getGitlabRepositories False ex_gitlab ''all'' ''all'' False
         = (Inr [\<lparr>CloneURL = ''git@h:site'', Name = ''site'', Namespace = ''acme'', Private = False\<rparr>,
                 \<lparr>CloneURL = ''git@h:copy'', Name = ''copy'', Namespace = ''acme'', Private = False\<rparr>,
                 \<lparr>CloneURL = ''git@h:keys'', Name = ''keys'', Namespace = ''acme'', Private = True\<rparr>],
            sent, [])
        \<and> map Page sent = [0, 2])
   \<and> fst (getGitlabRepositories False (take 1 ex_gitlab) ''all'' ''all'' False) = Inl NoReply
   \<and> getForgejoRepositories False ex_forgejo ''user''
     = (Inr [\<lparr>CloneURL = ''git@h:dots'', Name = ''dots'', Namespace = ''alice'', Private = True\<rparr>,
             \<lparr>CloneURL = ''git@h:blog'', Name = ''blog'', Namespace = ''alice'', Private = False\<rparr>],
        [ListMyRepos 1, ListMyRepos 2],
        ex_forgejo\<lparr>ListMyRepos_replies := []\<rparr>)
   \<and> fst (getForgejoRepositories False
            (ex_forgejo\<lparr>ListMyRepos_replies := take 1 (ListMyRepos_replies ex_forgejo)\<rparr>)
            ''user'') = Inl NoReply
   \<and> getForgejoRepositories False ex_forgejo ''starred''
     = (Inr [\<lparr>CloneURL = ''git@h:lib'', Name = ''lib'', Namespace = ''bob'', Private = False\<rparr>,
             \<lparr>CloneURL = ''git@h:app'', Name = ''app'', Namespace = ''carol'', Private = False\<rparr>],
        [GetMyUserInfo, SearchRepos 1 7, SearchRepos 2 7],
        ex_forgejo\<lparr>SearchRepos_replies := []\<rparr>)
   \<and> fst (getForgejoRepositories False
            (ex_forgejo\<lparr>SearchRepos_replies := take 1 (SearchRepos_replies ex_forgejo)\<rparr>)
            ''starred'') = Inl NoReply"
proof -
  let ?p1 = "[Inr ([ex_repo ''acme'' ''api'' False False, ex_repo ''acme'' ''fork'' True False],
                   Some 2)] :: github_Repository reply list"
  let ?l1 = "[ex_repo ''other'' ''tool'' False True]"
  let ?p2 = "[Inr ([\<lparr>star_Repository = Some (ex_repo ''other'' ''tool'' False False)\<rparr>],
                   Some 5)] :: github_StarredRepository reply list"
  let ?l2 = "[\<lparr>star_Repository = Some (ex_repo ''acme'' ''fork'' True False)\<rparr>]"
  let ?p3 = "[Inr ([ex_project ''acme'' ''site'' None ''internal'',
                    ex_project ''acme'' ''copy'' (Some ''up/copy'') ''public''], Some 2)]
               :: gitlab_Project reply list"
  let ?l3 = "[ex_project ''acme'' ''keys'' None ''private'']"
  let ?p4 = "[Inr ([ex_forgejo_repo ''alice'' ''dots'' True], Some 2)]
               :: forgejo_Repository reply list"
  let ?l4 = "[ex_forgejo_repo ''alice'' ''blog'' False]"
  let ?p5 = "[Inr ([ex_forgejo_repo ''bob'' ''lib'' False], Some 2)]
               :: forgejo_Repository reply list"
  let ?l5 = "[ex_forgejo_repo ''carol'' ''app'' False]"
  let ?user = "\<lparr>fj_UserName = ''alice'', fj_ID = 7\<rparr>"
  have h1: "''all'' \<noteq> ''starred'' \<and> list_all (turnsPage (githubItem False [] False)) ?p1
      \<and> list_all (noPanic (githubItem False [] False)) ?l1"
    by (simp add: ex_defs adapter_defs)
  have h2: "list_all (turnsPage (githubStarredItem False False)) ?p2
      \<and> list_all (noPanic (githubStarredItem False False)) ?l2"
    by (simp add: ex_defs adapter_defs)
  have h3: "list_all (turnsPage (gitlabItem False False)) ?p3
      \<and> list_all (noPanic (gitlabItem False False)) ?l3"
    by (simp add: ex_defs adapter_defs)
  have h4: "(''user'' = ''user'' \<or> ''user'' = []) \<and> (None = Some (0::int) \<or> None = (None::int option))
      \<and> list_all (turnsPage (forgejoItem False)) ?p4
      \<and> list_all (noPanic (forgejoItem False)) ?l4"
    by (simp add: ex_defs adapter_defs)
  have h5: "GetMyUserInfo_reply ex_forgejo = Inr ?user
      \<and> (Some 0 = Some (0::int) \<or> Some 0 = (None::int option))
      \<and> list_all (turnsPage (forgejoItem False)) ?p5
      \<and> list_all (noPanic (forgejoItem False)) ?l5"
    by (simp add: ex_defs adapter_defs)
  note T = pagination_stops_at_sentinel [where t = "''all''" and u = False and wl = "[]"
      and ig = False and ?pre1.0 = ?p1 and repos = ?l1 and github = ex_github
      and ?rest1.0 = "[]" and ?pre2.0 = ?p2 and stars = ?l2 and ?rest2.0 = "[]"
      and ?pre3.0 = ?p3 and projects = ?l3 and ?rest3.0 = "[]" and v = "''all''"
      and m = "''all''" and ft = "''user''" and ?resp4.0 = None and ?pre4.0 = ?p4
      and mine = ?l4 and forgejo = ex_forgejo and ?rest4.0 = "[]" and user = ?user
      and ?resp5.0 = "Some 0" and ?pre5.0 = ?p5 and found = ?l5 and ?rest5.0 = "[]"]
  note c1 = mp [OF T [THEN conjunct1] h1]
  note c2 = mp [OF T [THEN conjunct2, THEN conjunct1] h2]
  note c3 = mp [OF T [THEN conjunct2, THEN conjunct2, THEN conjunct1] h3]
  note c4 = mp [OF T [THEN conjunct2, THEN conjunct2, THEN conjunct2, THEN conjunct1] h4]
  note c5 = mp [OF T [THEN conjunct2, THEN conjunct2, THEN conjunct2, THEN conjunct2] h5]
  have e1: "ex_github\<lparr>Repositories_List_replies := ?p1 @ Inr (?l1, Some 0) # []\<rparr> = ex_github"
    and e1': "take 1 (Repositories_List_replies ex_github) = ?p1"
    and e2: "ex_github\<lparr>Activity_ListStarred_replies := ?p2 @ Inr (?l2, Some 0) # []\<rparr>
             = ex_github"
    and e2': "take 1 (Activity_ListStarred_replies ex_github) = ?p2"
    and e3: "?p3 @ Inr (?l3, Some 0) # [] = ex_gitlab" and e3': "take 1 ex_gitlab = ?p3"
    and e4: "ex_forgejo\<lparr>ListMyRepos_replies := ?p4 @ Inr (?l4, None) # []\<rparr> = ex_forgejo"
    and e4': "take 1 (ListMyRepos_replies ex_forgejo) = ?p4"
    and e5: "ex_forgejo\<lparr>SearchRepos_replies := ?p5 @ Inr (?l5, Some 0) # []\<rparr> = ex_forgejo"
    and e5': "take 1 (SearchRepos_replies ex_forgejo) = ?p5"
    by (simp_all add: ex_github_def ex_gitlab_def ex_forgejo_def)
  have a1: "appended (githubItem False [] False) (payload (?p1 @ [Inr (?l1, Some 0)]))
      = [\<lparr>CloneURL = ''git@h:api'', Name = ''api'', Namespace = ''acme'', Private = False\<rparr>,
         \<lparr>CloneURL = ''git@h:fork'', Name = ''fork'', Namespace = ''acme'', Private = False\<rparr>,
         \<lparr>CloneURL = ''git@h:tool'', Name = ''tool'', Namespace = ''other'', Private = True\<rparr>]"
    by (simp add: payload_def itemsOf_def ex_defs adapter_defs)
  have a2: "appended (githubStarredItem False False) (payload (?p2 @ [Inr (?l2, Some 0)]))
      = [\<lparr>CloneURL = ''git@h:tool'', Name = ''tool'', Namespace = ''other'', Private = False\<rparr>,
         \<lparr>CloneURL = ''git@h:fork'', Name = ''fork'', Namespace = ''acme'', Private = False\<rparr>]"
    by (simp add: payload_def itemsOf_def ex_defs adapter_defs)
  have a3: "appended (gitlabItem False False) (payload (?p3 @ [Inr (?l3, Some 0)]))
      = [\<lparr>CloneURL = ''git@h:site'', Name = ''site'', Namespace = ''acme'', Private = False\<rparr>,
         \<lparr>CloneURL = ''git@h:copy'', Name = ''copy'', Namespace = ''acme'', Private = False\<rparr>,
         \<lparr>CloneURL = ''git@h:keys'', Name = ''keys'', Namespace = ''acme'', Private = True\<rparr>]"
    by (simp add: payload_def itemsOf_def ex_defs adapter_defs)
  have a4: "appended (forgejoItem False) (payload (?p4 @ [Inr (?l4, None)]))
      = [\<lparr>CloneURL = ''git@h:dots'', Name = ''dots'', Namespace = ''alice'', Private = True\<rparr>,
         \<lparr>CloneURL = ''git@h:blog'', Name = ''blog'', Namespace = ''alice'', Private = False\<rparr>]"
    by (simp add: payload_def itemsOf_def ex_defs adapter_defs)
  have a5: "appended (forgejoItem False) (payload (?p5 @ [Inr (?l5, Some 0)]))
      = [\<lparr>CloneURL = ''git@h:lib'', Name = ''lib'', Namespace = ''bob'', Private = False\<rparr>,
         \<lparr>CloneURL = ''git@h:app'', Name = ''app'', Namespace = ''carol'', Private = False\<rparr>]"
    by (simp add: payload_def itemsOf_def ex_defs adapter_defs)
  show ?thesis
    using c1 [unfolded a1, unfolded e1] c2 [unfolded a2, unfolded e2]
      c3 [unfolded a3, unfolded e3] c4 [unfolded a4, unfolded e4]
      c5 [unfolded a5, unfolded e5]
    unfolding e1' e2' e3' e4' e5'
    by simp
qed

section \<open>Clone URL, private repositories, synchronization\<close>

text \<open>
  Claim C5. The clone URL resolver is a function of its three inputs: with the HTTPS
  preference set and a non-empty HTTPS URL it returns the HTTPS URL whatever the SSH
  URL is; otherwise, with a non-empty SSH URL it returns the SSH URL; otherwise it
  returns the HTTPS URL, the only one of the two that can still be non-empty.
\<close>

theorem getCloneURL_resolves:
  "(useHTTPSClone \<and> httpsURL \<noteq> []
      \<longrightarrow> getCloneURL useHTTPSClone httpsURL sshURL = httpsURL)
 \<and> (\<not> (useHTTPSClone \<and> httpsURL \<noteq> []) \<and> sshURL \<noteq> []
      \<longrightarrow> getCloneURL useHTTPSClone httpsURL sshURL = sshURL)
 \<and> (\<not> (useHTTPSClone \<and> httpsURL \<noteq> []) \<and> sshURL = []
      \<longrightarrow> getCloneURL useHTTPSClone httpsURL sshURL = httpsURL)"
  by (simp add: getCloneURL_def)

theorem getCloneURL_resolves_witness:
  "getCloneURL True ''https://h/api'' ''git@h:api'' = ''https://h/api''
   \<and> getCloneURL True ''https://h/api'' [] = ''https://h/api''
   \<and> getCloneURL False ''https://h/api'' ''git@h:api'' = ''git@h:api''
   \<and> getCloneURL True [] ''git@h:api'' = ''git@h:api''
   \<and> getCloneURL False ''https://h/api'' [] = ''https://h/api''
   \<and> getCloneURL False [] [] = []"
  using getCloneURL_resolves [of True "''https://h/api''" "''git@h:api''"]
    getCloneURL_resolves [of True "''https://h/api''" "[]"]
    getCloneURL_resolves [of False "''https://h/api''" "''git@h:api''"]
    getCloneURL_resolves [of True "[]" "''git@h:api''"]
    getCloneURL_resolves [of False "''https://h/api''" "[]"]
    getCloneURL_resolves [of False "[]" "[]"]
  by simp

lemma syncItem_clone:
  assumes "files st (targetPath cfg r) = None" and "git Clone (targetPath cfg r)"
  shows "syncItem git cfg st r =
         st\<lparr>files := (files st)(targetPath cfg r \<mapsto> GitStore (bare cfg)),
            operations := operations st @ [(targetPath cfg r, Clone)],
            succeeded := Suc (succeeded st)\<rparr>"
  using assms by (simp add: syncItem_def decide_def Let_def)

lemma syncItem_update:
  assumes "files st (targetPath cfg r) = Some (GitStore (bare cfg))"
  shows "files (syncItem git cfg st r) = files st
       \<and> operations (syncItem git cfg st r) = operations st @ [(targetPath cfg r, Update)]"
  using assms by (simp add: syncItem_def decide_def Let_def)

text \<open>A first run over absent, pairwise different target paths clones every item.\<close>

lemma first_run:
  assumes "distinct (map (targetPath cfg) rs)"
    and "\<forall>r\<in>set rs. files st (targetPath cfg r) = None"
    and "\<forall>r\<in>set rs. git Clone (targetPath cfg r)"
  shows "operations (foldl (syncItem git cfg) st rs)
           = operations st @ map (\<lambda>r. (targetPath cfg r, Clone)) rs
       \<and> succeeded (foldl (syncItem git cfg) st rs) = succeeded st + length rs
       \<and> failed (foldl (syncItem git cfg) st rs) = failed st
       \<and> (\<forall>p. files (foldl (syncItem git cfg) st rs) p
              = (if p \<in> targetPath cfg ` set rs then Some (GitStore (bare cfg))
                 else files st p))"
  using assms
proof (induction rs arbitrary: st)
  case Nil
  then show ?case by simp
next
  case (Cons r rs)
  let ?st = "syncItem git cfg st r"
  from Cons.prems have none: "files st (targetPath cfg r) = None"
    and ok: "git Clone (targetPath cfg r)" by simp_all
  note step = syncItem_clone [where git = git, OF none ok]
  from Cons.prems(1) have d: "distinct (map (targetPath cfg) rs)"
    and fresh: "targetPath cfg r \<notin> targetPath cfg ` set rs" by simp_all
  have absent: "\<forall>q\<in>set rs. files ?st (targetPath cfg q) = None"
  proof
    fix q assume q: "q \<in> set rs"
    then have "targetPath cfg q \<in> targetPath cfg ` set rs" by (rule imageI)
    with fresh have "targetPath cfg q \<noteq> targetPath cfg r" by metis
    with Cons.prems(2) q show "files ?st (targetPath cfg q) = None"
      by (simp add: step)
  qed
  from Cons.prems(3) have oks: "\<forall>q\<in>set rs. git Clone (targetPath cfg q)" by simp
  note IH = Cons.IH [OF d absent oks]
  show ?case
  proof (intro conjI allI)
    show "operations (foldl (syncItem git cfg) st (r # rs))
            = operations st @ map (\<lambda>r. (targetPath cfg r, Clone)) (r # rs)"
      using IH by (simp add: step)
    show "succeeded (foldl (syncItem git cfg) st (r # rs)) = succeeded st + length (r # rs)"
      using IH by (simp add: step)
    show "failed (foldl (syncItem git cfg) st (r # rs)) = failed st"
      using IH by (simp add: step)
    fix p
    show "files (foldl (syncItem git cfg) st (r # rs)) p
            = (if p \<in> targetPath cfg ` set (r # rs) then Some (GitStore (bare cfg))
               else files st p)"
      using IH fresh by (auto simp: step)
  qed
qed

text \<open>A run over target paths that all hold a store of the matching kind only updates.\<close>

lemma later_run:
  assumes "\<forall>r\<in>set rs. files st (targetPath cfg r) = Some (GitStore (bare cfg))"
  shows "operations (foldl (syncItem git cfg) st rs)
           = operations st @ map (\<lambda>r. (targetPath cfg r, Update)) rs
       \<and> files (foldl (syncItem git cfg) st rs) = files st"
  using assms
proof (induction rs arbitrary: st)
  case Nil
  then show ?case by simp
next
  case (Cons r rs)
  from Cons.prems have "files st (targetPath cfg r) = Some (GitStore (bare cfg))" by simp
  note step = syncItem_update [OF this, of git]
  from Cons.prems step
  have "\<forall>q\<in>set rs. files (syncItem git cfg st r) (targetPath cfg q)
          = Some (GitStore (bare cfg))" by simp
  from Cons.IH [OF this] step show ?case by simp
qed

text \<open>
  Claim C6. With ignore-private set, no private repository is in the filtered
  discovery output. For a discovered list of one public and one private repository, a
  run with ignore-private on a backup root where the public repository's target path
  is absent and whose clone succeeds performs exactly one clone, at that path, leaves
  exactly that one new store, and reports one success and no failure.
\<close>

theorem ignore_private_excludes:
  "(r \<in> set repositories \<and> Private r \<longrightarrow> r \<notin> set (applyIgnorePrivate True repositories))
 \<and> (\<not> Private public \<and> Private secret \<and> fs (targetPath cfg public) = None
      \<and> git Clone (targetPath cfg public)
    \<longrightarrow> applyIgnorePrivate True [public, secret] = [public]
      \<and> operations (sync git cfg (applyIgnorePrivate True [public, secret]) fs)
          = [(targetPath cfg public, Clone)]
      \<and> files (sync git cfg (applyIgnorePrivate True [public, secret]) fs)
          = fs(targetPath cfg public \<mapsto> GitStore (bare cfg))
      \<and> succeeded (sync git cfg (applyIgnorePrivate True [public, secret]) fs) = 1
      \<and> failed (sync git cfg (applyIgnorePrivate True [public, secret]) fs) = [])"
proof (intro conjI impI)
  show "r \<notin> set (applyIgnorePrivate True repositories)"
    if "r \<in> set repositories \<and> Private r"
    using that by (simp add: applyIgnorePrivate_def)
next
  assume a: "\<not> Private public \<and> Private secret \<and> fs (targetPath cfg public) = None
      \<and> git Clone (targetPath cfg public)"
  then have keep: "applyIgnorePrivate True [public, secret] = [public]"
    by (simp add: applyIgnorePrivate_def)
  let ?st0 = "\<lparr>files = fs, operations = [], succeeded = 0, failed = []\<rparr>"
  from a have "files ?st0 (targetPath cfg public) = None" by simp
  from syncItem_clone [OF this, of git] a
  have run: "sync git cfg [public] fs =
      \<lparr>files = fs(targetPath cfg public \<mapsto> GitStore (bare cfg)),
       operations = [(targetPath cfg public, Clone)], succeeded = 1, failed = []\<rparr>"
    by (simp add: sync_def)
  show "applyIgnorePrivate True [public, secret] = [public]" by (rule keep)
  show "operations (sync git cfg (applyIgnorePrivate True [public, secret]) fs)
          = [(targetPath cfg public, Clone)]" by (simp add: keep run)
  show "files (sync git cfg (applyIgnorePrivate True [public, secret]) fs)
          = fs(targetPath cfg public \<mapsto> GitStore (bare cfg))" by (simp add: keep run)
  show "succeeded (sync git cfg (applyIgnorePrivate True [public, secret]) fs) = 1"
    by (simp add: keep run)
  show "failed (sync git cfg (applyIgnorePrivate True [public, secret]) fs) = []"
    by (simp add: keep run)
qed

theorem ignore_private_excludes_witness:
  "ex_secrets \<in> set [ex_api, ex_secrets] \<and> Private ex_secrets
   \<and> ex_secrets \<notin> set (applyIgnorePrivate True [ex_api, ex_secrets])
   \<and> applyIgnorePrivate True [ex_api, ex_secrets] = [ex_api]
   \<and> operations (sync (\<lambda>op path. True) ex_cfg
        (applyIgnorePrivate True [ex_api, ex_secrets]) Map.empty)
       = [(''/b/github/acme/api'', Clone)]
   \<and> files (sync (\<lambda>op path. True) ex_cfg
        (applyIgnorePrivate True [ex_api, ex_secrets]) Map.empty)
       = [''/b/github/acme/api'' \<mapsto> GitStore False]
   \<and> succeeded (sync (\<lambda>op path. True) ex_cfg
        (applyIgnorePrivate True [ex_api, ex_secrets]) Map.empty) = 1
   \<and> failed (sync (\<lambda>op path. True) ex_cfg
        (applyIgnorePrivate True [ex_api, ex_secrets]) Map.empty) = []"
proof -
  have h1: "ex_secrets \<in> set [ex_api, ex_secrets] \<and> Private ex_secrets"
    by (simp add: ex_secrets_def)
  have h2: "\<not> Private ex_api \<and> Private ex_secrets
      \<and> Map.empty (targetPath ex_cfg ex_api) = (None :: entry option)
      \<and> (\<lambda>op path. True) Clone (targetPath ex_cfg ex_api)"
    by (simp add: ex_api_def ex_secrets_def)
  have p: "targetPath ex_cfg ex_api = ''/b/github/acme/api''" and b: "bare ex_cfg = False"
    by (simp_all add: targetPath_def ex_cfg_def ex_api_def)
  note T = ignore_private_excludes [where r = ex_secrets
      and repositories = "[ex_api, ex_secrets]" and public = ex_api and secret = ex_secrets
      and fs = Map.empty and cfg = ex_cfg and git = "\<lambda>op path. True"]
  from mp [OF T [THEN conjunct1] h1] mp [OF T [THEN conjunct2] h2] h1
  show ?thesis unfolding p b by blast
qed

text \<open>
  Claim C8. Over repositories with pairwise different target paths, none of which
  exists yet, a first run whose clones succeed performs one fresh clone per repository;
  a second run over the backup root it leaves performs one update (fetch) per
  repository and nothing else, whatever the tool's exit codes, and leaves every store
  in place: the backup root after the second run is the one after the first.
\<close>

theorem sync_twice:
  "distinct (map (targetPath cfg) repositories)
   \<and> (\<forall>r\<in>set repositories. fs (targetPath cfg r) = None)
   \<and> (\<forall>r\<in>set repositories. git1 Clone (targetPath cfg r))
   \<longrightarrow> operations (sync git1 cfg repositories fs)
         = map (\<lambda>r. (targetPath cfg r, Clone)) repositories
     \<and> succeeded (sync git1 cfg repositories fs) = length repositories
     \<and> operations (sync git2 cfg repositories (files (sync git1 cfg repositories fs)))
         = map (\<lambda>r. (targetPath cfg r, Update)) repositories
     \<and> files (sync git2 cfg repositories (files (sync git1 cfg repositories fs)))
         = files (sync git1 cfg repositories fs)
     \<and> (\<forall>r\<in>set repositories.
           files (sync git1 cfg repositories fs) (targetPath cfg r)
             = Some (GitStore (bare cfg)))"
proof
  assume a: "distinct (map (targetPath cfg) repositories)
   \<and> (\<forall>r\<in>set repositories. fs (targetPath cfg r) = None)
   \<and> (\<forall>r\<in>set repositories. git1 Clone (targetPath cfg r))"
  let ?st0 = "\<lparr>files = fs, operations = [], succeeded = 0, failed = []\<rparr>"
  let ?fs1 = "files (sync git1 cfg repositories fs)"
  from a have "\<forall>r\<in>set repositories. files ?st0 (targetPath cfg r) = None" by simp
  with a have one: "operations (foldl (syncItem git1 cfg) ?st0 repositories)
           = operations ?st0 @ map (\<lambda>r. (targetPath cfg r, Clone)) repositories
       \<and> succeeded (foldl (syncItem git1 cfg) ?st0 repositories)
           = succeeded ?st0 + length repositories
       \<and> failed (foldl (syncItem git1 cfg) ?st0 repositories) = failed ?st0
       \<and> (\<forall>p. files (foldl (syncItem git1 cfg) ?st0 repositories) p
              = (if p \<in> targetPath cfg ` set repositories then Some (GitStore (bare cfg))
                 else files ?st0 p))"
    by (intro first_run) simp_all
  then have stores: "\<forall>r\<in>set repositories. ?fs1 (targetPath cfg r) = Some (GitStore (bare cfg))"
    by (simp add: sync_def)
  let ?st1 = "\<lparr>files = ?fs1, operations = [], succeeded = 0, failed = []\<rparr>"
  from stores have "\<forall>r\<in>set repositories.
      files ?st1 (targetPath cfg r) = Some (GitStore (bare cfg))" by simp
  from later_run [OF this, of git2]
  have two: "operations (sync git2 cfg repositories ?fs1)
               = map (\<lambda>r. (targetPath cfg r, Update)) repositories
           \<and> files (sync git2 cfg repositories ?fs1) = ?fs1"
    by (simp add: sync_def)
  from one two stores
  show "operations (sync git1 cfg repositories fs)
         = map (\<lambda>r. (targetPath cfg r, Clone)) repositories
     \<and> succeeded (sync git1 cfg repositories fs) = length repositories
     \<and> operations (sync git2 cfg repositories ?fs1)
         = map (\<lambda>r. (targetPath cfg r, Update)) repositories
     \<and> files (sync git2 cfg repositories ?fs1) = ?fs1
     \<and> (\<forall>r\<in>set repositories. ?fs1 (targetPath cfg r) = Some (GitStore (bare cfg)))"
    by (simp add: sync_def)
qed

theorem sync_twice_witness:
  "distinct (map (targetPath ex_cfg) [ex_api, ex_web])
   \<and> operations (sync (\<lambda>op path. True) ex_cfg [ex_api, ex_web] Map.empty)
       = [(''/b/github/acme/api'', Clone), (''/b/github/acme/web'', Clone)]
   \<and> succeeded (sync (\<lambda>op path. True) ex_cfg [ex_api, ex_web] Map.empty) = 2
   \<and> operations (sync (\<lambda>op path. False) ex_cfg [ex_api, ex_web]
         (files (sync (\<lambda>op path. True) ex_cfg [ex_api, ex_web] Map.empty)))
       = [(''/b/github/acme/api'', Update), (''/b/github/acme/web'', Update)]
   \<and> files (sync (\<lambda>op path. False) ex_cfg [ex_api, ex_web]
         (files (sync (\<lambda>op path. True) ex_cfg [ex_api, ex_web] Map.empty)))
       = files (sync (\<lambda>op path. True) ex_cfg [ex_api, ex_web] Map.empty)
   \<and> list_all (\<lambda>r. files (sync (\<lambda>op path. True) ex_cfg [ex_api, ex_web] Map.empty)
                        (targetPath ex_cfg r) = Some (GitStore False))
        [ex_api, ex_web]"
proof -
  have p: "targetPath ex_cfg ex_api = ''/b/github/acme/api''"
      "targetPath ex_cfg ex_web = ''/b/github/acme/web''" and b: "bare ex_cfg = False"
    by (simp_all add: targetPath_def ex_cfg_def ex_api_def ex_web_def)
  have h: "distinct (map (targetPath ex_cfg) [ex_api, ex_web])
      \<and> (\<forall>r\<in>set [ex_api, ex_web]. Map.empty (targetPath ex_cfg r) = (None :: entry option))
      \<and> (\<forall>r\<in>set [ex_api, ex_web]. (\<lambda>op path. True) Clone (targetPath ex_cfg r))"
    by (simp add: p)
  from mp [OF sync_twice [where cfg = ex_cfg and repositories = "[ex_api, ex_web]"
        and fs = Map.empty and ?git1.0 = "\<lambda>op path. True" and ?git2.0 = "\<lambda>op path. False"] h] h
  show ?thesis by (simp add: p b)
qed

lemma poolStep_ceiling:
  "poolStep ceiling s e = Some s' \<Longrightarrow> length (inFlight s) \<le> ceiling
   \<Longrightarrow> length (inFlight s') \<le> ceiling"
  by (cases e) (auto split: list.splits if_splits)

lemma poolRun_ceiling:
  "poolRun ceiling s events = Some s' \<Longrightarrow> length (inFlight s) \<le> ceiling
   \<Longrightarrow> length (inFlight s') \<le> ceiling"
proof (induction events arbitrary: s)
  case Nil
  then show ?case by simp
next
  case (Cons e events)
  from Cons.prems(1) obtain s1 where
    s1: "poolStep ceiling s e = Some s1" "poolRun ceiling s1 events = Some s'"
    by (auto split: option.splits)
  from poolStep_ceiling [OF s1(1) Cons.prems(2)] Cons.IH [OF s1(2)]
  show ?case by simp
qed

text \<open>
  Claim C7. In every state the worker pool reaches from its start, for every list of
  repositories and every sequence of dispatch and completion steps, the number of
  operations in flight is at most the ceiling; with the default ceiling
  \<^verbatim>\<open>MaxConcurrentClones\<close> it is at most 20.
\<close>

theorem pool_ceiling:
  "(poolRun ceiling (poolStart repositories) events = Some s
      \<longrightarrow> length (inFlight s) \<le> ceiling)
 \<and> (poolRun MaxConcurrentClones (poolStart repositories) events = Some s
      \<longrightarrow> length (inFlight s) \<le> 20)"
  using poolRun_ceiling [of ceiling "poolStart repositories" events s]
    poolRun_ceiling [of MaxConcurrentClones "poolStart repositories" events s]
  by (simp add: poolStart_def MaxConcurrentClones_def)

theorem pool_ceiling_witness:
  "poolRun 2 (poolStart [ex_api, ex_secrets, ex_web]) [Dispatch, Dispatch, Complete 0, Dispatch]
     = Some \<lparr>queued = [], inFlight = [ex_secrets, ex_web], finished = [ex_api]\<rparr>
   \<and> length (inFlight \<lparr>queued = [], inFlight = [ex_secrets, ex_web], finished = [ex_api]\<rparr>) \<le> 2
   \<and> poolRun 2 (poolStart [ex_api, ex_secrets, ex_web]) [Dispatch, Dispatch, Dispatch] = None
   \<and> poolRun MaxConcurrentClones (poolStart [ex_api, ex_secrets, ex_web])
        [Dispatch, Dispatch, Dispatch]
     = Some \<lparr>queued = [], inFlight = [ex_api, ex_secrets, ex_web], finished = []\<rparr>
   \<and> length (inFlight \<lparr>queued = [], inFlight = [ex_api, ex_secrets, ex_web], finished = []\<rparr>)
       \<le> 20"
proof -
  have r1: "poolRun 2 (poolStart [ex_api, ex_secrets, ex_web])
              [Dispatch, Dispatch, Complete 0, Dispatch]
            = Some \<lparr>queued = [], inFlight = [ex_secrets, ex_web], finished = [ex_api]\<rparr>"
    by (simp add: poolStart_def)
  have r2: "poolRun MaxConcurrentClones (poolStart [ex_api, ex_secrets, ex_web])
              [Dispatch, Dispatch, Dispatch]
            = Some \<lparr>queued = [], inFlight = [ex_api, ex_secrets, ex_web], finished = []\<rparr>"
    by (simp add: poolStart_def MaxConcurrentClones_def)
  have r3: "poolRun 2 (poolStart [ex_api, ex_secrets, ex_web]) [Dispatch, Dispatch, Dispatch]
            = None"
    by (simp add: poolStart_def)
  from mp [OF pool_ceiling [THEN conjunct1] r1] mp [OF pool_ceiling [THEN conjunct2] r2]
    r1 r2 r3
  show ?thesis by blast
qed

section \<open>Creating the default configuration file\<close>

text \<open>
  Claim C9, as amended. When something already exists at the resolved config path
  (\<^verbatim>\<open>os.Stat\<close> succeeds), \<^verbatim>\<open>handleInitConfig\<close> returns an error and makes no call
  that changes the file system, so the existing file is left as it is. When nothing
  exists there and creating the parent directory, rendering and writing all succeed,
  it calls \<^verbatim>\<open>os.MkdirAll\<close> on the parent directory and then writes the rendering of
  \<^verbatim>\<open>defaultFileConfig()\<close> to the path and returns nil; when creating the parent
  directory fails it returns an error and writes nothing, and when rendering or
  writing fails it returns an error. The default configuration has service
  \<^verbatim>\<open>github\<close>, GitHub repo type \<^verbatim>\<open>all\<close> and GitLab project visibility
  \<^verbatim>\<open>internal\<close>; its values are the defaults of the command-line flags, except for
  the service, whose flag declares no default.
\<close>

theorem init_config:
  "(resolveConfigPath env configPath = Inr path \<and> os_Stat env path = None
    \<longrightarrow> handleInitConfig env configPath = (Some (Errorf (path @ '' already exists'')), []))
 \<and> (resolveConfigPath env configPath = Inr path \<and> os_Stat env path \<noteq> None
      \<and> os_MkdirAll env (filepath_Dir env path) = None
      \<and> yaml_Marshal env defaultFileConfig = Inr data
      \<and> os_WriteFile env path data = None
    \<longrightarrow> handleInitConfig env configPath
          = (None, [MkdirAll (filepath_Dir env path) ''0755'', WriteFile path data ''0644'',
                    Printf (''Created '' @ path @ [CHR 0x0A])]))
 \<and> (resolveConfigPath env configPath = Inr path \<and> os_Stat env path \<noteq> None
      \<and> os_MkdirAll env (filepath_Dir env path) = Some err
    \<longrightarrow> handleInitConfig env configPath
          = (Some (Errorf (''error creating directory '' @ filepath_Dir env path @ '': ''
                            @ errorString err)),
             [MkdirAll (filepath_Dir env path) ''0755'']))
 \<and> (resolveConfigPath env configPath = Inr path \<and> os_Stat env path \<noteq> None
      \<and> os_MkdirAll env (filepath_Dir env path) = None
      \<and> (yaml_Marshal env defaultFileConfig = Inl err
           \<or> yaml_Marshal env defaultFileConfig = Inr data
              \<and> os_WriteFile env path data = Some err)
    \<longrightarrow> fst (handleInitConfig env configPath) \<noteq> None)
 \<and> (resolveConfigPath env configPath = Inl err
    \<longrightarrow> handleInitConfig env configPath = (Some err, []))
 \<and> Service defaultFileConfig = ''github''
 \<and> github_RepoType (GitHub defaultFileConfig) = ''all''
 \<and> gitlab_ProjectVisibility (GitLab defaultFileConfig) = ''internal''
 \<and> map_of appFlags ''githost.url'' = Some (StringValue (GitHostURL defaultFileConfig))
 \<and> map_of appFlags ''backupdir'' = Some (StringValue (BackupDir defaultFileConfig))
 \<and> map_of appFlags ''ignore-private'' = Some (BoolValue (IgnorePrivate defaultFileConfig))
 \<and> map_of appFlags ''ignore-fork'' = Some (BoolValue (IgnoreFork defaultFileConfig))
 \<and> map_of appFlags ''use-https-clone'' = Some (BoolValue (UseHTTPSClone defaultFileConfig))
 \<and> map_of appFlags ''bare'' = Some (BoolValue (Bare defaultFileConfig))
 \<and> map_of appFlags ''github.repoType''
      = Some (StringValue (github_RepoType (GitHub defaultFileConfig)))
 \<and> map_of appFlags ''gitlab.projectVisibility''
      = Some (StringValue (gitlab_ProjectVisibility (GitLab defaultFileConfig)))
 \<and> map_of appFlags ''gitlab.projectMembershipType''
      = Some (StringValue (gitlab_ProjectMembershipType (GitLab defaultFileConfig)))
 \<and> map_of appFlags ''forgejo.repoType''
      = Some (StringValue (forgejo_RepoType (Forgejo defaultFileConfig)))"
proof -
  have flags: "Service defaultFileConfig = ''github''
     \<and> github_RepoType (GitHub defaultFileConfig) = ''all''
     \<and> gitlab_ProjectVisibility (GitLab defaultFileConfig) = ''internal''
     \<and> map_of appFlags ''githost.url'' = Some (StringValue (GitHostURL defaultFileConfig))
     \<and> map_of appFlags ''backupdir'' = Some (StringValue (BackupDir defaultFileConfig))
     \<and> map_of appFlags ''ignore-private'' = Some (BoolValue (IgnorePrivate defaultFileConfig))
     \<and> map_of appFlags ''ignore-fork'' = Some (BoolValue (IgnoreFork defaultFileConfig))
     \<and> map_of appFlags ''use-https-clone'' = Some (BoolValue (UseHTTPSClone defaultFileConfig))
     \<and> map_of appFlags ''bare'' = Some (BoolValue (Bare defaultFileConfig))
     \<and> map_of appFlags ''github.repoType''
          = Some (StringValue (github_RepoType (GitHub defaultFileConfig)))
     \<and> map_of appFlags ''gitlab.projectVisibility''
          = Some (StringValue (gitlab_ProjectVisibility (GitLab defaultFileConfig)))
     \<and> map_of appFlags ''gitlab.projectMembershipType''
          = Some (StringValue (gitlab_ProjectMembershipType (GitLab defaultFileConfig)))
     \<and> map_of appFlags ''forgejo.repoType''
          = Some (StringValue (forgejo_RepoType (Forgejo defaultFileConfig)))"
    by (simp add: defaultFileConfig_def appFlags_def)
  have exists: "handleInitConfig env configPath
                  = (Some (Errorf (path @ '' already exists'')), [])"
    if "resolveConfigPath env configPath = Inr path \<and> os_Stat env path = None"
    using that by (simp add: handleInitConfig_def)
  have created: "handleInitConfig env configPath
          = (None, [MkdirAll (filepath_Dir env path) ''0755'', WriteFile path data ''0644'',
                    Printf (''Created '' @ path @ [CHR 0x0A])])"
    if "resolveConfigPath env configPath = Inr path \<and> os_Stat env path \<noteq> None
      \<and> os_MkdirAll env (filepath_Dir env path) = None
      \<and> yaml_Marshal env defaultFileConfig = Inr data
      \<and> os_WriteFile env path data = None"
    using that by (auto simp: handleInitConfig_def Let_def)
  have nodir: "handleInitConfig env configPath
          = (Some (Errorf (''error creating directory '' @ filepath_Dir env path @ '': ''
                            @ errorString err)),
             [MkdirAll (filepath_Dir env path) ''0755''])"
    if "resolveConfigPath env configPath = Inr path \<and> os_Stat env path \<noteq> None
      \<and> os_MkdirAll env (filepath_Dir env path) = Some err"
    using that by (auto simp: handleInitConfig_def Let_def)
  have nowrite: "fst (handleInitConfig env configPath) \<noteq> None"
    if "resolveConfigPath env configPath = Inr path \<and> os_Stat env path \<noteq> None
      \<and> os_MkdirAll env (filepath_Dir env path) = None
      \<and> (yaml_Marshal env defaultFileConfig = Inl err
           \<or> yaml_Marshal env defaultFileConfig = Inr data
              \<and> os_WriteFile env path data = Some err)"
    using that by (auto simp: handleInitConfig_def Let_def)
  have nopath: "handleInitConfig env configPath = (Some err, [])"
    if "resolveConfigPath env configPath = Inl err"
    using that by (simp add: handleInitConfig_def)
  from flags exists created nodir nowrite nopath show ?thesis by blast
qed

lemmas init_defs = ex_env_def ex_Dir_def resolveConfigPath_def defaultConfigPath_def
  defaultConfigFile_def

theorem init_config_witness:
  "handleInitConfig (ex_env [''cfg/gitbackup.yml''] [] []) ''cfg/gitbackup.yml''
     = (Some (Errorf ''cfg/gitbackup.yml already exists''), [])
   \<and> handleInitConfig (ex_env [] [] []) []
     = (None,
        [MkdirAll ''/home/u/.config/gitbackup'' ''0755'',
         WriteFile ''/home/u/.config/gitbackup/gitbackup.yml''
           (''service: github'' @ [CHR 0x0A]) ''0644'',
         Printf (''Created /home/u/.config/gitbackup/gitbackup.yml'' @ [CHR 0x0A])])
   \<and> handleInitConfig (ex_env [''a''] [''a''] []) ''a/gitbackup.yml''
     = (Some (Errorf ''error creating directory a: mkdir a: not a directory''),
        [MkdirAll ''a'' ''0755''])
   \<and> fst (handleInitConfig (ex_env [] [] [''ro/gitbackup.yml'']) ''ro/gitbackup.yml'') \<noteq> None
   \<and> handleInitConfig ((ex_env [] [] [])\<lparr>os_UserConfigDir := Inl (ClientError ''$HOME is not defined'')\<rparr>) []
     = (Some (Errorf ''unable to determine config directory: $HOME is not defined''), [])"
proof -
  let ?e1 = "ex_env [''cfg/gitbackup.yml''] [] []"
  let ?e2 = "ex_env [] [] []"
  let ?e3 = "ex_env [''a''] [''a''] []"
  let ?e4 = "ex_env [] [] [''ro/gitbackup.yml'']"
  let ?e5 = "(ex_env [] [] [])\<lparr>os_UserConfigDir := Inl (ClientError ''$HOME is not defined'')\<rparr>"
  let ?home = "''/home/u/.config/gitbackup/gitbackup.yml''"
  let ?data = "''service: github'' @ [CHR 0x0A]"
  have h1: "resolveConfigPath ?e1 ''cfg/gitbackup.yml'' = Inr ''cfg/gitbackup.yml''
      \<and> os_Stat ?e1 ''cfg/gitbackup.yml'' = None"
    by (simp add: init_defs)
  have h2: "resolveConfigPath ?e2 [] = Inr ?home \<and> os_Stat ?e2 ?home \<noteq> None
      \<and> os_MkdirAll ?e2 (filepath_Dir ?e2 ?home) = None
      \<and> yaml_Marshal ?e2 defaultFileConfig = Inr ?data
      \<and> os_WriteFile ?e2 ?home ?data = None"
    by (simp add: init_defs defaultFileConfig_def)
  have d2: "filepath_Dir ?e2 ?home = ''/home/u/.config/gitbackup''"
    by (simp add: init_defs)
  have h3: "resolveConfigPath ?e3 ''a/gitbackup.yml'' = Inr ''a/gitbackup.yml''
      \<and> os_Stat ?e3 ''a/gitbackup.yml'' \<noteq> None
      \<and> os_MkdirAll ?e3 (filepath_Dir ?e3 ''a/gitbackup.yml'')
          = Some (ClientError ''mkdir a: not a directory'')"
    by (simp add: init_defs)
  have d3: "filepath_Dir ?e3 ''a/gitbackup.yml'' = ''a''"
    by (simp add: init_defs)
  have h4: "resolveConfigPath ?e4 ''ro/gitbackup.yml'' = Inr ''ro/gitbackup.yml''
      \<and> os_Stat ?e4 ''ro/gitbackup.yml'' \<noteq> None
      \<and> os_MkdirAll ?e4 (filepath_Dir ?e4 ''ro/gitbackup.yml'') = None
      \<and> (yaml_Marshal ?e4 defaultFileConfig
            = Inl (ClientError ''open ro/gitbackup.yml: permission denied'')
          \<or> yaml_Marshal ?e4 defaultFileConfig = Inr ?data
             \<and> os_WriteFile ?e4 ''ro/gitbackup.yml'' ?data
                 = Some (ClientError ''open ro/gitbackup.yml: permission denied''))"
    by (simp add: init_defs defaultFileConfig_def)
  have h5: "resolveConfigPath ?e5 []
      = Inl (Errorf ''unable to determine config directory: $HOME is not defined'')"
    by (simp add: init_defs)
  note c1 = mp [OF init_config [THEN conjunct1] h1]
  note c2 = mp [OF init_config [THEN conjunct2, THEN conjunct1] h2]
  note c3 = mp [OF init_config [THEN conjunct2, THEN conjunct2, THEN conjunct1] h3]
  note c4 = mp [OF init_config [THEN conjunct2, THEN conjunct2, THEN conjunct2,
      THEN conjunct1] h4]
  note c5 = mp [OF init_config [THEN conjunct2, THEN conjunct2, THEN conjunct2,
      THEN conjunct2, THEN conjunct1] h5]
  from c1 c2 [unfolded d2] c3 [unfolded d3] c4 c5 show ?thesis by simp
qed

text \<open>
  Claim C9 as stated fails in two ways. Nothing exists at \<^verbatim>\<open>a/gitbackup.yml\<close>, but
  \<^verbatim>\<open>a\<close> is a regular file, so creating the parent directory fails: an error is
  returned and no configuration is written. And the service of the default
  configuration is \<^verbatim>\<open>github\<close>, while the service flag's default is the empty
  string.
\<close>

theorem init_config_counterexample:
  "os_Stat (ex_env [''a''] [''a''] []) ''a/gitbackup.yml'' \<noteq> None
   \<and> handleInitConfig (ex_env [''a''] [''a''] []) ''a/gitbackup.yml''
     = (Some (Errorf ''error creating directory a: mkdir a: not a directory''),
        [MkdirAll ''a'' ''0755''])
   \<and> map_of appFlags ''service'' = Some (StringValue [])
   \<and> Service defaultFileConfig = ''github''"
  by (simp add: init_defs handleInitConfig_def appFlags_def defaultFileConfig_def)

end
